theory Spec2Isabelle
  imports Main "HOL-Library.Word"
begin

section \<open>Domain types (internal/domain/message.go, internal/ports)\<close>

text \<open>
  A \<open>uuid.UUID\<close> is a 128-bit value; \<open>time.Time\<close> values are instants on a
  linear clock, read here as natural numbers. \<open>domain.Status\<close> is declared as
  \<open>type Status string\<close>: any string is a value of that type, the five constants are
  only the names the pipeline uses.
\<close>

type_synonym uuid = "128 word"
type_synonym timestamp = nat
type_synonym Status = string

definition StatusPending :: Status where "StatusPending = ''pending''"
definition StatusQueued :: Status where "StatusQueued = ''queued''"
definition StatusSent :: Status where "StatusSent = ''sent''"
definition StatusDelivered :: Status where "StatusDelivered = ''delivered''"
definition StatusFailed :: Status where "StatusFailed = ''failed''"

text \<open>
  Several structs of the program share field names. The record of \<open>domain.Message\<close>
  is declared last, so that an unqualified \<open>ID\<close>, \<open>Status\<close>, \<open>ProviderID\<close>,
  \<open>Body\<close> or \<open>CreatedAt\<close> is the field of a message; the fields of the other
  structs are written qualified (\<open>Broadcast.ID\<close>, \<open>DLRPayload.Status\<close>, ...).
\<close>

record CreateBroadcastRequest =
  Name :: string
  Body :: string
  Recipient :: "string list"

record Broadcast =
  ID :: uuid
  Name :: string
  CreatedAt :: timestamp

record SendResult =
  ProviderID :: string

record DLRPayload =
  ProviderID :: uuid
  Status :: Status

record dlrRequest =
  ProviderID :: string
  Status :: string

record Message =
  ID :: uuid
  BroadcastID :: uuid
  To :: string
  Body :: string
  Status :: Status
  ProviderID :: string
  CreatedAt :: timestamp
  UpdatedAt :: timestamp

text \<open>
  \<open>NewBroadcast\<close> and \<open>NewMessage\<close> call \<open>uuid.New()\<close> and \<open>time.Now().UTC()\<close>;
  the two values read are arguments here. \<open>NewMessage\<close> leaves \<open>ProviderID\<close> at
  the zero value of a Go string.
\<close>

definition NewBroadcast :: "uuid \<Rightarrow> timestamp \<Rightarrow> string \<Rightarrow> Broadcast" where
  "NewBroadcast new_id now name =
     \<lparr>Broadcast.ID = new_id, Broadcast.Name = name, Broadcast.CreatedAt = now\<rparr>"

definition NewMessage :: "uuid \<Rightarrow> timestamp \<Rightarrow> uuid \<Rightarrow> string \<Rightarrow> string \<Rightarrow> Message" where
  "NewMessage new_id now broadcastID to body =
     \<lparr>ID = new_id, BroadcastID = broadcastID, To = to, Body = body,
      Status = StatusPending, ProviderID = [], CreatedAt = now, UpdatedAt = now\<rparr>"

text \<open>
  Errors. \<open>DriverError\<close> is an error handed up by a library (the database driver,
  the AMQP channel, the HTTP client); \<open>NotFound\<close> is the
  \<open>fmt.Errorf("message not found...")\<close> of the repository; the next three are the
  declared domain errors; \<open>Wrapped\<close> is \<open>fmt.Errorf("<context>: %w", err)\<close>.
\<close>

datatype error =
    DriverError
  | NotFound string
  | ErrMessageNotFound
  | ErrBroadcastNotFound
  | ErrInvalidStatus
  | Wrapped string error

fun returns_ErrInvalidStatus :: "error \<Rightarrow> bool" where
  "returns_ErrInvalidStatus ErrInvalidStatus = True"
| "returns_ErrInvalidStatus (Wrapped c err) = returns_ErrInvalidStatus err"
| "returns_ErrInvalidStatus err = False"

text \<open>
  Modelled from the spec: the package \<open>github.com/google/uuid\<close> is not among the
  sources; section 6 of the specification fixes the rendering of an identifier as the
  canonical 8-4-4-4-12 lowercase hexadecimal form of its sixteen bytes. \<open>uuid_String\<close>
  is that rendering, \<open>uuid_Parse_canonical\<close> reads exactly that form back.
\<close>

definition hexdigit :: "nat \<Rightarrow> char" where
  "hexdigit d = ''0123456789abcdef'' ! d"

definition hexbyte :: "nat \<Rightarrow> string" where
  "hexbyte b = [hexdigit (b div 16 mod 16), hexdigit (b mod 16)]"

definition byte_at :: "uuid \<Rightarrow> nat \<Rightarrow> nat" where
  "byte_at u i = (unat u div 256 ^ (15 - i)) mod 256"

definition uuid_String :: "uuid \<Rightarrow> string" where
  "uuid_String u =
     concat (map (hexbyte \<circ> byte_at u) [0, 1, 2, 3]) @ ''-'' @
     concat (map (hexbyte \<circ> byte_at u) [4, 5]) @ ''-'' @
     concat (map (hexbyte \<circ> byte_at u) [6, 7]) @ ''-'' @
     concat (map (hexbyte \<circ> byte_at u) [8, 9]) @ ''-'' @
     concat (map (hexbyte \<circ> byte_at u) [10, 11, 12, 13, 14, 15])"

definition hexval :: "char \<Rightarrow> nat option" where
  "hexval c = map_of (zip ''0123456789abcdef'' [0, 1, 2, 3, 4, 5, 6, 7, 8, 9, 10, 11, 12, 13, 14, 15]) c"

fun unhex :: "string \<Rightarrow> nat \<Rightarrow> nat option" where
  "unhex [] acc = Some acc"
| "unhex (c # cs) acc =
     (case hexval c of None \<Rightarrow> None | Some d \<Rightarrow> unhex cs (16 * acc + d))"

definition uuid_Parse_canonical :: "string \<Rightarrow> uuid option" where
  "uuid_Parse_canonical s =
     (if length s = 36 \<and> s ! 8 = CHR ''-'' \<and> s ! 13 = CHR ''-''
         \<and> s ! 18 = CHR ''-'' \<and> s ! 23 = CHR ''-''
      then map_option of_nat
             (unhex (take 8 s @ take 4 (drop 9 s) @ take 4 (drop 14 s)
                       @ take 4 (drop 19 s) @ drop 24 s) 0)
      else None)"

section \<open>The store (internal/adapters/db/postgres/repository.go)\<close>

text \<open>
  The two tables, rows in the order the database keeps them. Each repository method
  takes two values from outside the program: \<open>fault\<close>, whether the driver reports an
  error for this statement (then nothing is written), and, where the method stamps
  \<open>updated_at\<close>, the clock reading \<open>now\<close>.
\<close>

record Store =
  broadcasts :: "Broadcast list"
  messages :: "Message list"

text \<open>
  \<open>Create\<close> of one broadcast row. The driver reports an error on a fault and on a
  primary-key violation (\<open>id UUID PRIMARY KEY\<close>).
\<close>

definition SaveBroadcast :: "bool \<Rightarrow> Broadcast \<Rightarrow> Store \<Rightarrow> error + Store" where
  "SaveBroadcast fault b s =
     (if fault \<or> Broadcast.ID b \<in> set (map Broadcast.ID (broadcasts s))
      then Inl (Wrapped ''create broadcast'' DriverError)
      else Inr (s\<lparr>broadcasts := broadcasts s @ [b]\<rparr>))"

text \<open>
  \<open>CreateInBatches(msgs, 100)\<close>: nothing is executed for an empty slice; otherwise
  the rows are inserted in one transaction, so either all of them are stored or none.
  The insert is refused on a fault, on a duplicate message id and on a
  \<open>broadcast_id\<close> that references no broadcast row.
\<close>

definition SaveMessages :: "bool \<Rightarrow> Message list \<Rightarrow> Store \<Rightarrow> error + Store" where
  "SaveMessages fault msgs s =
     (if msgs = [] then Inr s
      else if fault then Inl (Wrapped ''create messages'' DriverError)
      else if distinct (map ID msgs @ map ID (messages s))
           \<and> set (map BroadcastID msgs) \<subseteq> set (map Broadcast.ID (broadcasts s))
      then Inr (s\<lparr>messages := messages s @ msgs\<rparr>)
      else Inl (Wrapped ''create messages'' DriverError))"

text \<open>
  \<open>Where("status = ?", StatusPending).Order("created_at ASC").Limit(limit).Find\<close>.
  Two things in this query are decided outside the sources and are inputs here.

  The ordering names \<open>created_at\<close> only. It fixes the order of two rows with different
  timestamps and leaves the order of rows with equal timestamps to the database.
  \<open>tie\<close> is that choice of the database: the place it gives a row among the rows with
  the same timestamp. The rows are ordered by \<open>created_at\<close>, and within one
  timestamp by \<open>tie\<close>; every order the query allows arises from some \<open>tie\<close>.

  A positive \<open>limit\<close> bounds the number of rows. What a limit of zero or below does is
  decided by the query layer and the database, not by this method: the statement is
  refused with an error, or it returns no row, or it runs without a bound.
  \<open>nonpositive\<close> says which.
\<close>

datatype limit_reading = Refused | NoRows | Unbounded

definition GetPendingMessages ::
  "bool \<Rightarrow> (Message \<Rightarrow> nat) \<Rightarrow> limit_reading \<Rightarrow> int \<Rightarrow> Store \<Rightarrow> error + Message list" where
  "GetPendingMessages fault tie nonpositive limit s =
     (let rows = sort_key CreatedAt
                   (sort_key tie (filter (\<lambda>m. Status m = StatusPending) (messages s)))
      in if fault then Inl (Wrapped ''find pending messages'' DriverError)
         else if 0 < limit then Inr (take (nat limit) rows)
         else (case nonpositive of
                 Refused \<Rightarrow> Inl (Wrapped ''find pending messages'' DriverError)
               | NoRows \<Rightarrow> Inr []
               | Unbounded \<Rightarrow> Inr rows))"

text \<open>
  \<open>Model(&Message{}).Where(cond).Updates(columns)\<close>: every row that satisfies the
  condition is rewritten; \<open>RowsAffected\<close> counts them. The three update methods
  first return the driver's error, if any, then an error when no row was affected;
  the \<open>WHERE\<close> names the id (the provider id) only, and the columns written are the
  status (the provider id) and \<open>updated_at\<close>, set to \<open>time.Now().UTC()\<close>.
\<close>

definition Updates :: "(Message \<Rightarrow> bool) \<Rightarrow> (Message \<Rightarrow> Message) \<Rightarrow> Message list \<Rightarrow> Message list" where
  "Updates cond f rows = map (\<lambda>m. if cond m then f m else m) rows"

definition RowsAffected :: "(Message \<Rightarrow> bool) \<Rightarrow> Message list \<Rightarrow> nat" where
  "RowsAffected cond rows = length (filter cond rows)"

definition UpdateMessageStatus ::
  "bool \<Rightarrow> timestamp \<Rightarrow> uuid \<Rightarrow> Status \<Rightarrow> Store \<Rightarrow> error + Store" where
  "UpdateMessageStatus fault now msg_id status s =
     (if fault then Inl (Wrapped ''update message status'' DriverError)
      else if RowsAffected (\<lambda>m. ID m = msg_id) (messages s) = 0
      then Inl (NotFound (uuid_String msg_id))
      else Inr (s\<lparr>messages :=
                  Updates (\<lambda>m. ID m = msg_id) (\<lambda>m. m\<lparr>Status := status, UpdatedAt := now\<rparr>)
                    (messages s)\<rparr>))"

definition UpdateMessageStatusByProviderID ::
  "bool \<Rightarrow> timestamp \<Rightarrow> string \<Rightarrow> Status \<Rightarrow> Store \<Rightarrow> error + Store" where
  "UpdateMessageStatusByProviderID fault now providerID status s =
     (if fault then Inl (Wrapped ''update message status by provider id'' DriverError)
      else if RowsAffected (\<lambda>m. ProviderID m = providerID) (messages s) = 0
      then Inl (NotFound providerID)
      else Inr (s\<lparr>messages :=
                  Updates (\<lambda>m. ProviderID m = providerID)
                    (\<lambda>m. m\<lparr>Status := status, UpdatedAt := now\<rparr>) (messages s)\<rparr>))"

definition SetProviderID ::
  "bool \<Rightarrow> timestamp \<Rightarrow> uuid \<Rightarrow> string \<Rightarrow> Store \<Rightarrow> error + Store" where
  "SetProviderID fault now msg_id providerID s =
     (if fault then Inl (Wrapped ''set provider id'' DriverError)
      else if RowsAffected (\<lambda>m. ID m = msg_id) (messages s) = 0
      then Inl (NotFound (uuid_String msg_id))
      else Inr (s\<lparr>messages :=
                  Updates (\<lambda>m. ID m = msg_id) (\<lambda>m. m\<lparr>ProviderID := providerID, UpdatedAt := now\<rparr>)
                    (messages s)\<rparr>))"

section \<open>The world around the service (internal/ports)\<close>

text \<open>
  The service reaches the store, the broker and the gateway through the interfaces of
  \<open>internal/ports\<close>. What those collaborators answer is not decided by the program, so
  it is an input: an \<open>env\<close> says, for each outbound call of one service operation,
  whether the call fails, which instant \<open>time.Now()\<close> reads, which value
  \<open>uuid.New()\<close> draws and which provider id the gateway hands back. Calls are
  identified by the method and its arguments. \<open>tie_order\<close> and
  \<open>nonpositive_limit\<close> are the two inputs of the pending-rows query.
\<close>

datatype call =
    CNewBroadcast
  | CNewMessage nat
  | CSaveBroadcast
  | CSaveMessages
  | CGetPendingMessages
  | CUpdateMessageStatus uuid Status
  | CUpdateMessageStatusByProviderID string Status
  | CSetProviderID uuid string
  | CPublish uuid
  | CSend uuid

record env =
  fails :: "call \<Rightarrow> bool"
  time_Now :: "call \<Rightarrow> timestamp"
  uuid_New :: "call \<Rightarrow> uuid"
  provider_id :: "uuid \<Rightarrow> string"
  tie_order :: "Message \<Rightarrow> nat"
  nonpositive_limit :: limit_reading

text \<open>
  The broker queue holds message bodies. A body is either the JSON encoding of a
  \<open>domain.Message\<close> or something \<open>json.Unmarshal\<close> rejects.
\<close>

datatype payload = JSON Message | Malformed

fun json_Unmarshal :: "payload \<Rightarrow> error + Message" where
  "json_Unmarshal (JSON msg) = Inr msg"
| "json_Unmarshal Malformed = Inl DriverError"

text \<open>
  The history of one run: each call that left the service, with whether it succeeded,
  and each acknowledgement decision of the consumer (\<open>Nack requeue\<close>).
\<close>

datatype event = Called call bool | Ack | Nack bool

record world =
  store :: Store
  broker :: "payload list"
  trace :: "event list"

definition db_exec :: "call \<Rightarrow> error + Store \<Rightarrow> world \<Rightarrow> error option \<times> world" where
  "db_exec c r w =
     (case r of
        Inl err \<Rightarrow> (Some err, w\<lparr>trace := trace w @ [Called c False]\<rparr>)
      | Inr s \<Rightarrow> (None, w\<lparr>store := s, trace := trace w @ [Called c True]\<rparr>))"

definition repo_SaveBroadcast :: "env \<Rightarrow> Broadcast \<Rightarrow> world \<Rightarrow> error option \<times> world" where
  "repo_SaveBroadcast e b w =
     db_exec CSaveBroadcast (SaveBroadcast (fails e CSaveBroadcast) b (store w)) w"

definition repo_SaveMessages :: "env \<Rightarrow> Message list \<Rightarrow> world \<Rightarrow> error option \<times> world" where
  "repo_SaveMessages e msgs w =
     db_exec CSaveMessages (SaveMessages (fails e CSaveMessages) msgs (store w)) w"

definition repo_GetPendingMessages ::
  "env \<Rightarrow> int \<Rightarrow> world \<Rightarrow> (error + Message list) \<times> world" where
  "repo_GetPendingMessages e limit w =
     (case GetPendingMessages (fails e CGetPendingMessages) (tie_order e) (nonpositive_limit e)
        limit (store w) of
        Inl err \<Rightarrow> (Inl err, w\<lparr>trace := trace w @ [Called CGetPendingMessages False]\<rparr>)
      | Inr msgs \<Rightarrow> (Inr msgs, w\<lparr>trace := trace w @ [Called CGetPendingMessages True]\<rparr>))"

definition repo_UpdateMessageStatus ::
  "env \<Rightarrow> uuid \<Rightarrow> Status \<Rightarrow> world \<Rightarrow> error option \<times> world" where
  "repo_UpdateMessageStatus e msg_id status w =
     (let c = CUpdateMessageStatus msg_id status
      in db_exec c (UpdateMessageStatus (fails e c) (time_Now e c) msg_id status (store w)) w)"

definition repo_UpdateMessageStatusByProviderID ::
  "env \<Rightarrow> string \<Rightarrow> Status \<Rightarrow> world \<Rightarrow> error option \<times> world" where
  "repo_UpdateMessageStatusByProviderID e providerID status w =
     (let c = CUpdateMessageStatusByProviderID providerID status
      in db_exec c
           (UpdateMessageStatusByProviderID (fails e c) (time_Now e c) providerID status (store w)) w)"

definition repo_SetProviderID ::
  "env \<Rightarrow> uuid \<Rightarrow> string \<Rightarrow> world \<Rightarrow> error option \<times> world" where
  "repo_SetProviderID e msg_id providerID w =
     (let c = CSetProviderID msg_id providerID
      in db_exec c (SetProviderID (fails e c) (time_Now e c) msg_id providerID (store w)) w)"

text \<open>
  \<open>Publisher.Publish\<close> (internal/adapters/queue/rabbitmq/publisher.go): the message
  is marshalled and handed to the channel; on success the body is in the queue.
\<close>

definition publisher_Publish :: "env \<Rightarrow> Message \<Rightarrow> world \<Rightarrow> error option \<times> world" where
  "publisher_Publish e msg w =
     (let c = CPublish (ID msg)
      in if fails e c then (Some DriverError, w\<lparr>trace := trace w @ [Called c False]\<rparr>)
         else (None, w\<lparr>broker := broker w @ [JSON msg], trace := trace w @ [Called c True]\<rparr>))"

text \<open>
  \<open>SMSProvider.Send\<close>: the gateway either rejects the submission or returns the
  external id it assigned.
\<close>

definition provider_Send :: "env \<Rightarrow> Message \<Rightarrow> world \<Rightarrow> (error + SendResult) \<times> world" where
  "provider_Send e msg w =
     (let c = CSend (ID msg)
      in if fails e c then (Inl DriverError, w\<lparr>trace := trace w @ [Called c False]\<rparr>)
         else (Inr \<lparr>SendResult.ProviderID = provider_id e (ID msg)\<rparr>,
               w\<lparr>trace := trace w @ [Called c True]\<rparr>))"

section \<open>The application service (internal/app/service.go)\<close>

text \<open>
  \<open>CreateBroadcast\<close>: the broadcast is saved by one repository call, the messages by
  a second one. The \<open>i\<close>-th recipient's message takes its id and its timestamp from
  the \<open>i\<close>-th call of \<open>NewMessage\<close>.
\<close>

definition CreateBroadcast ::
  "env \<Rightarrow> CreateBroadcastRequest \<Rightarrow> world \<Rightarrow> (error + Broadcast) \<times> world" where
  "CreateBroadcast e req w =
     (let broadcast = NewBroadcast (uuid_New e CNewBroadcast) (time_Now e CNewBroadcast)
                        (CreateBroadcastRequest.Name req)
      in case repo_SaveBroadcast e broadcast w of
           (Some err, w1) \<Rightarrow> (Inl (Wrapped ''save broadcast'' err), w1)
         | (None, w1) \<Rightarrow>
             (let msgs = map (\<lambda>(i, to). NewMessage (uuid_New e (CNewMessage i))
                                         (time_Now e (CNewMessage i)) (Broadcast.ID broadcast)
                                         to (CreateBroadcastRequest.Body req))
                             (enumerate 0 (Recipient req))
              in case repo_SaveMessages e msgs w1 of
                   (Some err, w2) \<Rightarrow> (Inl (Wrapped ''save messages'' err), w2)
                 | (None, w2) \<Rightarrow> (Inr broadcast, w2)))"

text \<open>
  The body of \<open>for _, msg := range msgs\<close> in \<open>PublishPendingMessages\<close>, with the
  counter \<open>published\<close>. An error of the first update skips the row; an error of
  \<open>Publish\<close> is followed by the update back to pending, whose own error is dropped.
\<close>

fun publish_loop :: "env \<Rightarrow> Message list \<Rightarrow> nat \<Rightarrow> world \<Rightarrow> nat \<times> world" where
  "publish_loop e [] published w = (published, w)"
| "publish_loop e (msg # msgs) published w =
     (case repo_UpdateMessageStatus e (ID msg) StatusQueued w of
        (Some err, w1) \<Rightarrow> publish_loop e msgs published w1
      | (None, w1) \<Rightarrow>
          (case publisher_Publish e msg w1 of
             (Some err, w2) \<Rightarrow>
               publish_loop e msgs published
                 (snd (repo_UpdateMessageStatus e (ID msg) StatusPending w2))
           | (None, w2) \<Rightarrow> publish_loop e msgs (published + 1) w2))"

definition PublishPendingMessages ::
  "env \<Rightarrow> int \<Rightarrow> world \<Rightarrow> (nat \<times> error option) \<times> world" where
  "PublishPendingMessages e batchSize w =
     (case repo_GetPendingMessages e batchSize w of
        (Inl err, w1) \<Rightarrow> ((0, Some (Wrapped ''get pending messages'' err)), w1)
      | (Inr msgs, w1) \<Rightarrow>
          (case publish_loop e msgs 0 w1 of
             (published, w2) \<Rightarrow> ((published, None), w2)))"

definition SendMessage :: "env \<Rightarrow> Message \<Rightarrow> world \<Rightarrow> error option \<times> world" where
  "SendMessage e msg w =
     (case provider_Send e msg w of
        (Inl err, w1) \<Rightarrow>
          (Some (Wrapped ''provider send'' err),
           snd (repo_UpdateMessageStatus e (ID msg) StatusFailed w1))
      | (Inr result, w1) \<Rightarrow>
          (let w2 = snd (repo_SetProviderID e (ID msg) (SendResult.ProviderID result) w1)
           in case repo_UpdateMessageStatus e (ID msg) StatusSent w2 of
                (Some err, w3) \<Rightarrow> (Some (Wrapped ''update status sent'' err), w3)
              | (None, w3) \<Rightarrow> (None, w3)))"

definition HandleDLR :: "env \<Rightarrow> DLRPayload \<Rightarrow> world \<Rightarrow> error option \<times> world" where
  "HandleDLR e dlr w =
     (case repo_UpdateMessageStatusByProviderID e
             (uuid_String (DLRPayload.ProviderID dlr)) (DLRPayload.Status dlr) w of
        (Some err, w1) \<Rightarrow> (Some (Wrapped ''update dlr status'' err), w1)
      | (None, w1) \<Rightarrow> (None, w1))"

section \<open>The consumer (internal/adapters/queue/rabbitmq/consumer.go)\<close>

text \<open>
  One pass through the \<open>case d, ok := <-deliveries\<close> branch of the loop in
  \<open>Consume\<close>, for the delivery at the head of the queue. The delivery leaves the
  queue when it is handed to the consumer and is unacknowledged while the handler
  runs. After \<open>d.Ack(false)\<close> and \<open>d.Nack(false, false)\<close> it is gone;
  \<open>d.Nack(false, true)\<close> puts it back at the head of the queue for another
  delivery. With an empty queue the receive blocks and nothing happens.
\<close>

definition Consume_step ::
  "(Message \<Rightarrow> world \<Rightarrow> error option \<times> world) \<Rightarrow> world \<Rightarrow> world" where
  "Consume_step handler w =
     (case broker w of
        [] \<Rightarrow> w
      | d # rest \<Rightarrow>
          (case json_Unmarshal d of
             Inl err \<Rightarrow> w\<lparr>broker := rest, trace := trace w @ [Nack False]\<rparr>
           | Inr msg \<Rightarrow>
               (case handler msg (w\<lparr>broker := rest\<rparr>) of
                  (Some err, w1) \<Rightarrow>
                    w1\<lparr>broker := d # broker w1, trace := trace w1 @ [Nack True]\<rparr>
                | (None, w1) \<Rightarrow> w1\<lparr>trace := trace w1 @ [Ack]\<rparr>)))"

section \<open>The DLR webhook (internal/transport/http.go)\<close>

text \<open>
  \<open>statusFromString\<close> is the conversion \<open>domain.Status(s)\<close>. The handler receives
  the decoded body (\<open>None\<close> when \<open>BodyParser\<close> fails) and answers with an HTTP status
  code. \<open>uuid.Parse\<close> is a parameter of the model.
\<close>

definition statusFromString :: "string \<Rightarrow> Status" where
  "statusFromString s = s"

definition HandleDLR_http ::
  "(string \<Rightarrow> uuid option) \<Rightarrow> env \<Rightarrow> dlrRequest option \<Rightarrow> world \<Rightarrow> nat \<times> world" where
  "HandleDLR_http uuid_Parse e body w =
     (case body of
        None \<Rightarrow> (400, w)
      | Some req \<Rightarrow>
          if dlrRequest.ProviderID req = [] \<or> dlrRequest.Status req = [] then (400, w)
          else (case uuid_Parse (dlrRequest.ProviderID req) of
                  None \<Rightarrow> (400, w)
                | Some providerID \<Rightarrow>
                    (let dlr = \<lparr>DLRPayload.ProviderID = providerID,
                                DLRPayload.Status = statusFromString (dlrRequest.Status req)\<rparr>
                     in case HandleDLR e dlr w of
                          (Some err, w1) \<Rightarrow> (500, w1)
                        | (None, w1) \<Rightarrow> (204, w1))))"


section \<open>The handoff of one row, as the loop of the publisher performs it\<close>

text \<open>
  What one pass of the loop in \<open>PublishPendingMessages\<close> does with a selected row
  \<open>m\<close>, read off the loop body: (1) the update to queued, and nothing more when it
  fails; (2) the publish; (3) after a failed publish the update back to pending, whose
  error the loop drops (\<open>_ = s.repo.UpdateMessageStatus(...)\<close>). \<open>handoff_calls\<close>
  lists the calls in that order with their outcomes; \<open>handed_off\<close> says that the
  publish succeeded; \<open>row_after_handoff\<close> is the row the pass leaves in the table:
  unchanged when step (1) fails, pending when the publish fails and step (3)
  succeeds, and queued otherwise, which includes the case that the publish and step
  (3) both fail.
\<close>

definition handed_off :: "env \<Rightarrow> Message \<Rightarrow> bool" where
  "handed_off e m =
     (\<not> fails e (CUpdateMessageStatus (ID m) StatusQueued) \<and> \<not> fails e (CPublish (ID m)))"

definition handoff_calls :: "env \<Rightarrow> Message \<Rightarrow> event list" where
  "handoff_calls e m =
     (let q = CUpdateMessageStatus (ID m) StatusQueued;
          p = CPublish (ID m);
          c = CUpdateMessageStatus (ID m) StatusPending
      in if fails e q then [Called q False]
         else if fails e p then [Called q True, Called p False, Called c (\<not> fails e c)]
         else [Called q True, Called p True])"

definition row_after_handoff :: "env \<Rightarrow> Message \<Rightarrow> Message" where
  "row_after_handoff e r =
     (let q = CUpdateMessageStatus (ID r) StatusQueued;
          p = CPublish (ID r);
          c = CUpdateMessageStatus (ID r) StatusPending
      in if fails e q then r
         else if fails e p \<and> \<not> fails e c
         then r\<lparr>Status := StatusPending, UpdatedAt := time_Now e c\<rparr>
         else r\<lparr>Status := StatusQueued, UpdatedAt := time_Now e q\<rparr>)"

section \<open>Concrete stores and environments\<close>

definition demo_rows :: "Message list" where
  "demo_rows =
     [\<lparr>ID = 2, BroadcastID = 1, To = ''+1'', Body = ''hi'', Status = ''pending'',
       ProviderID = [], CreatedAt = 5, UpdatedAt = 5\<rparr>,
      \<lparr>ID = 3, BroadcastID = 1, To = ''+2'', Body = ''hi'', Status = ''pending'',
       ProviderID = [], CreatedAt = 5, UpdatedAt = 5\<rparr>,
      \<lparr>ID = 4, BroadcastID = 1, To = ''+3'', Body = ''hi'', Status = ''delivered'',
       ProviderID = ''00000000-0000-0000-0000-0000000000aa'', CreatedAt = 3, UpdatedAt = 8\<rparr>,
      \<lparr>ID = 5, BroadcastID = 1, To = ''+4'', Body = ''hi'', Status = ''sent'',
       ProviderID = ''00000000-0000-0000-0000-0000000000cc'', CreatedAt = 4, UpdatedAt = 7\<rparr>]"

definition demo_world :: world where
  "demo_world =
     \<lparr>store = \<lparr>broadcasts = [\<lparr>Broadcast.ID = 1, Broadcast.Name = ''n'', Broadcast.CreatedAt = 3\<rparr>],
               messages = demo_rows\<rparr>,
      broker = [], trace = []\<rparr>"

definition empty_world :: world where
  "empty_world = \<lparr>store = \<lparr>broadcasts = [], messages = []\<rparr>, broker = [], trace = []\<rparr>"

definition env_ok :: env where
  "env_ok =
     \<lparr>fails = (\<lambda>c. False), time_Now = (\<lambda>c. 9),
      uuid_New = (\<lambda>c. case c of CNewBroadcast \<Rightarrow> 1 | CNewMessage i \<Rightarrow> of_nat (i + 2) | _ \<Rightarrow> 0),
      provider_id = (\<lambda>u. ''00000000-0000-0000-0000-0000000000bb''),
      tie_order = (\<lambda>m. 0), nonpositive_limit = Refused\<rparr>"

definition env_publish_fails :: env where
  "env_publish_fails = env_ok\<lparr>fails := (\<lambda>c. c = CPublish 3)\<rparr>"

definition env_compensation_fails :: env where
  "env_compensation_fails =
     env_ok\<lparr>fails := (\<lambda>c. c = CPublish 3 \<or> c = CUpdateMessageStatus 3 StatusPending)\<rparr>"


definition no_ErrInvalidStatus :: "error + 'a \<Rightarrow> bool" where
  "no_ErrInvalidStatus r =
     (case r of Inl err \<Rightarrow> \<not> returns_ErrInvalidStatus err | Inr x \<Rightarrow> True)"

definition without_UpdatedAt :: "Message \<Rightarrow> Message" where
  "without_UpdatedAt m = m\<lparr>UpdatedAt := 0\<rparr>"

definition env_later :: env where
  "env_later = env_ok\<lparr>time_Now := (\<lambda>c. 12)\<rparr>"

definition dlr_cc :: DLRPayload where
  "dlr_cc = \<lparr>DLRPayload.ProviderID = 0xcc, DLRPayload.Status = StatusDelivered\<rparr>"

definition env_resend :: env where
  "env_resend = env_ok\<lparr>provider_id := (\<lambda>u. ''00000000-0000-0000-0000-0000000000dd'')\<rparr>"

text \<open>
  The row of a message after a worker send whose gateway call succeeded: the provider
  id is stored unless \<open>SetProviderID\<close> fails, then the status becomes sent unless
  that update fails.
\<close>

definition row_after_send :: "env \<Rightarrow> Message \<Rightarrow> Message" where
  "row_after_send e r =
     (let p = provider_id e (ID r);
          cs = CSetProviderID (ID r) p;
          cu = CUpdateMessageStatus (ID r) StatusSent;
          r1 = (if fails e cs then r else r\<lparr>ProviderID := p, UpdatedAt := time_Now e cs\<rparr>)
      in if fails e cu then r1 else r1\<lparr>Status := StatusSent, UpdatedAt := time_Now e cu\<rparr>)"

definition queued_world :: world where
  "queued_world =
     \<lparr>store = \<lparr>broadcasts = [\<lparr>Broadcast.ID = 1, Broadcast.Name = ''n'', Broadcast.CreatedAt = 3\<rparr>],
               messages = map (\<lambda>m. m\<lparr>Status := StatusQueued, UpdatedAt := 6\<rparr>) (take 2 demo_rows)\<rparr>,
      broker = map JSON (take 2 demo_rows), trace = []\<rparr>"

definition env_gateway_down :: env where
  "env_gateway_down = env_ok\<lparr>fails := (\<lambda>c. c = CSend 2)\<rparr>"

definition env_setid_fails :: env where
  "env_setid_fails =
     env_ok\<lparr>fails := (\<lambda>c. c = CSetProviderID 2 ''00000000-0000-0000-0000-0000000000bb'')\<rparr>"

definition env_status_fails :: env where
  "env_status_fails = env_ok\<lparr>fails := (\<lambda>c. c = CUpdateMessageStatus 2 StatusSent)\<rparr>"

definition dlr_other :: DLRPayload where
  "dlr_other = \<lparr>DLRPayload.ProviderID = 0xcc, DLRPayload.Status = StatusFailed\<rparr>"

text \<open>The context string of a wrapped error, empty for an error that is not wrapped.\<close>

fun error_context :: "error \<Rightarrow> string" where
  "error_context (Wrapped c err) = c"
| "error_context err = []"

definition req_two :: CreateBroadcastRequest where
  "req_two = \<lparr>CreateBroadcastRequest.Name = ''n'', CreateBroadcastRequest.Body = ''hi'',
              Recipient = [''+1'', ''+2'']\<rparr>"

definition env_messages_fail :: env where
  "env_messages_fail = env_ok\<lparr>fails := (\<lambda>c. c = CSaveMessages)\<rparr>"

definition dlr_request_pending :: dlrRequest where
  "dlr_request_pending =
     \<lparr>dlrRequest.ProviderID = ''00000000-0000-0000-0000-0000000000aa'',
      dlrRequest.Status = ''pending''\<rparr>"

section \<open>Facts about the repository\<close>

lemmas Status_defs =
  StatusPending_def StatusQueued_def StatusSent_def StatusDelivered_def StatusFailed_def

lemmas demo_defs = demo_world_def demo_rows_def empty_world_def env_ok_def

lemmas run_defs = queued_world_def env_gateway_down_def env_setid_fails_def env_status_fails_def
  demo_defs Status_defs

lemmas exec_defs = Consume_step_def SendMessage_def HandleDLR_def provider_Send_def
  publisher_Publish_def repo_UpdateMessageStatus_def repo_SetProviderID_def
  repo_UpdateMessageStatusByProviderID_def repo_GetPendingMessages_def
  repo_SaveBroadcast_def repo_SaveMessages_def db_exec_def
  UpdateMessageStatus_def SetProviderID_def UpdateMessageStatusByProviderID_def
  GetPendingMessages_def SaveBroadcast_def SaveMessages_def
  RowsAffected_def Updates_def Let_def

lemma RowsAffected_zero_iff: "RowsAffected c rows = 0 \<longleftrightarrow> (\<forall>m\<in>set rows. \<not> c m)"
  by (simp add: RowsAffected_def filter_empty_conv)

lemma Updates_cong:
  "(\<And>m. m \<in> set rows \<Longrightarrow> c m \<Longrightarrow> f m = g m) \<Longrightarrow> Updates c f rows = Updates c g rows"
  by (simp add: Updates_def)

lemma Updates_Updates:
  "(\<And>m. c (f m) = c m) \<Longrightarrow> Updates c g (Updates c f rows) = Updates c (\<lambda>m. g (f m)) rows"
  by (simp add: Updates_def)

lemma Updates_ident: "Updates c (\<lambda>m. m) rows = rows"
  by (simp add: Updates_def)

lemma Updates_False: "Updates (\<lambda>r. False) f rows = rows"
  by (simp add: Updates_def)

lemma Updates_insert:
  assumes "\<And>m. ID (f m) = ID m" and "i \<notin> S"
  shows "Updates (\<lambda>r. ID r \<in> S) f (Updates (\<lambda>r. ID r = i) f rows) =
         Updates (\<lambda>r. ID r \<in> insert i S) f rows"
  using assms by (auto simp add: Updates_def)

lemma map_ID_Updates: "(\<And>m. ID (f m) = ID m) \<Longrightarrow> map ID (Updates c f rows) = map ID rows"
  by (simp add: Updates_def)

lemma length_Updates [simp]: "length (Updates c f rows) = length rows"
  by (simp add: Updates_def)

lemma nth_Updates:
  "i < length rows \<Longrightarrow> Updates c f rows ! i = (if c (rows ! i) then f (rows ! i) else rows ! i)"
  by (simp add: Updates_def)

lemma ID_row_after_handoff [simp]: "ID (row_after_handoff e r) = ID r"
  by (simp add: row_after_handoff_def Let_def)

lemma repo_UpdateMessageStatus_found:
  assumes "msg_id \<in> set (map ID (messages (store w)))"
  shows "repo_UpdateMessageStatus e msg_id st w =
         (if fails e (CUpdateMessageStatus msg_id st)
          then (Some (Wrapped ''update message status'' DriverError),
                w\<lparr>trace := trace w @ [Called (CUpdateMessageStatus msg_id st) False]\<rparr>)
          else (None,
                w\<lparr>store := (store w)\<lparr>messages :=
                       Updates (\<lambda>m. ID m = msg_id)
                         (\<lambda>m. m\<lparr>Status := st,
                                 UpdatedAt := time_Now e (CUpdateMessageStatus msg_id st)\<rparr>)
                         (messages (store w))\<rparr>,
                   trace := trace w @ [Called (CUpdateMessageStatus msg_id st) True]\<rparr>))"
proof -
  from assms have "RowsAffected (\<lambda>m. ID m = msg_id) (messages (store w)) \<noteq> 0"
    by (auto simp: RowsAffected_zero_iff)
  then show ?thesis
    by (simp add: repo_UpdateMessageStatus_def db_exec_def UpdateMessageStatus_def Let_def)
qed

lemma repo_UpdateMessageStatus_missing:
  assumes "msg_id \<notin> set (map ID (messages (store w)))"
  shows "repo_UpdateMessageStatus e msg_id st w =
         (Some (if fails e (CUpdateMessageStatus msg_id st)
                then Wrapped ''update message status'' DriverError
                else NotFound (uuid_String msg_id)),
          w\<lparr>trace := trace w @ [Called (CUpdateMessageStatus msg_id st) False]\<rparr>)"
proof -
  from assms have "RowsAffected (\<lambda>m. ID m = msg_id) (messages (store w)) = 0"
    by (auto simp: RowsAffected_zero_iff)
  then show ?thesis
    by (simp add: repo_UpdateMessageStatus_def db_exec_def UpdateMessageStatus_def Let_def)
qed

text \<open>
  The primary key of the message table: once the ids of the rows are distinct, every
  repository method keeps them distinct. The updates do not touch an id, and the
  insert checks the new ids against each other and against the table.
\<close>

lemma primary_key_updates:
  "UpdateMessageStatus fault now i st s = Inr s' \<Longrightarrow> map ID (messages s') = map ID (messages s)"
  "UpdateMessageStatusByProviderID fault now p st s = Inr s' \<Longrightarrow>
     map ID (messages s') = map ID (messages s)"
  "SetProviderID fault now i p s = Inr s' \<Longrightarrow> map ID (messages s') = map ID (messages s)"
  by (auto simp: UpdateMessageStatus_def UpdateMessageStatusByProviderID_def SetProviderID_def
      map_ID_Updates split: if_splits)

lemma primary_key_inserts:
  "SaveMessages fault msgs s = Inr s' \<Longrightarrow> distinct (map ID (messages s)) \<Longrightarrow>
     distinct (map ID (messages s'))"
  "SaveBroadcast fault b s = Inr s' \<Longrightarrow> messages s' = messages s"
  by (fastforce simp: SaveMessages_def SaveBroadcast_def split: if_splits)+

section \<open>The publisher loop\<close>

lemma publish_step:
  assumes "ID msg \<in> set (map ID (messages (store w)))"
  shows "publish_loop e (msg # msgs) n w =
         publish_loop e msgs (if handed_off e msg then n + 1 else n)
           (w\<lparr>store := (store w)\<lparr>messages :=
                  Updates (\<lambda>r. ID r = ID msg) (row_after_handoff e) (messages (store w))\<rparr>,
              broker := broker w @ (if handed_off e msg then [JSON msg] else []),
              trace := trace w @ handoff_calls e msg\<rparr>)"
proof -
  let ?q = "CUpdateMessageStatus (ID msg) StatusQueued"
  let ?p = "CPublish (ID msg)"
  let ?c = "CUpdateMessageStatus (ID msg) StatusPending"
  let ?rows = "messages (store w)"
  let ?cond = "\<lambda>r. ID r = ID msg"
  note found = repo_UpdateMessageStatus_found
  show ?thesis
  proof (cases "fails e ?q")
    case True
    have "Updates ?cond (row_after_handoff e) ?rows = Updates ?cond (\<lambda>m. m) ?rows"
      by (rule Updates_cong) (simp add: row_after_handoff_def True)
    then have rows: "Updates ?cond (row_after_handoff e) ?rows = ?rows"
      by (simp add: Updates_ident)
    show ?thesis
      by (simp add: found [OF assms] True rows handed_off_def handoff_calls_def)
  next
    case q: False
    let ?w1 = "w\<lparr>store := (store w)\<lparr>messages :=
                  Updates ?cond (\<lambda>m. m\<lparr>Status := StatusQueued, UpdatedAt := time_Now e ?q\<rparr>) ?rows\<rparr>,
                trace := trace w @ [Called ?q True]\<rparr>"
    have step1: "repo_UpdateMessageStatus e (ID msg) StatusQueued w = (None, ?w1)"
      by (simp add: found [OF assms] q)
    show ?thesis
    proof (cases "fails e ?p")
      case p: False
      have rows: "Updates ?cond (row_after_handoff e) ?rows =
                  Updates ?cond (\<lambda>m. m\<lparr>Status := StatusQueued, UpdatedAt := time_Now e ?q\<rparr>) ?rows"
        by (rule Updates_cong) (simp add: row_after_handoff_def q p)
      show ?thesis
        by (simp add: step1 publisher_Publish_def p q rows handed_off_def handoff_calls_def)
    next
      case p: True
      let ?w2 = "?w1\<lparr>trace := trace ?w1 @ [Called ?p False]\<rparr>"
      have in2: "ID msg \<in> set (map ID (messages (store ?w2)))"
        using assms by (simp add: map_ID_Updates)
      show ?thesis
      proof (cases "fails e ?c")
        case c: True
        have rows: "Updates ?cond (row_after_handoff e) ?rows =
                    Updates ?cond (\<lambda>m. m\<lparr>Status := StatusQueued, UpdatedAt := time_Now e ?q\<rparr>) ?rows"
          by (rule Updates_cong) (simp add: row_after_handoff_def q p c)
        show ?thesis
          using found [OF in2, of e StatusPending]
          by (simp add: step1 publisher_Publish_def p q c rows handed_off_def handoff_calls_def)
      next
        case c: False
        have rows: "Updates ?cond (row_after_handoff e) ?rows =
                    Updates ?cond (\<lambda>m. m\<lparr>Status := StatusPending, UpdatedAt := time_Now e ?c\<rparr>) ?rows"
          by (rule Updates_cong) (simp add: row_after_handoff_def q p c)
        show ?thesis
          using found [OF in2, of e StatusPending]
          by (simp add: step1 publisher_Publish_def p q c rows handed_off_def handoff_calls_def
              Updates_Updates)
      qed
    qed
  qed
qed

lemma publish_loop_char:
  assumes "distinct (map ID msgs)"
    and "set (map ID msgs) \<subseteq> set (map ID (messages (store w)))"
  shows "publish_loop e msgs n w =
         (n + length (filter (handed_off e) msgs),
          w\<lparr>store := (store w)\<lparr>messages :=
                 Updates (\<lambda>r. ID r \<in> set (map ID msgs)) (row_after_handoff e)
                   (messages (store w))\<rparr>,
             broker := broker w @ map JSON (filter (handed_off e) msgs),
             trace := trace w @ concat (map (handoff_calls e) msgs)\<rparr>)"
  using assms
proof (induction msgs arbitrary: n w)
  case Nil
  show ?case by (simp add: Updates_False)
next
  case (Cons msg msgs)
  let ?w1 = "w\<lparr>store := (store w)\<lparr>messages :=
                  Updates (\<lambda>r. ID r = ID msg) (row_after_handoff e) (messages (store w))\<rparr>,
              broker := broker w @ (if handed_off e msg then [JSON msg] else []),
              trace := trace w @ handoff_calls e msg\<rparr>"
  from Cons.prems have here: "ID msg \<in> set (map ID (messages (store w)))"
    and fresh: "ID msg \<notin> set (map ID msgs)" and dist: "distinct (map ID msgs)"
    by auto
  from Cons.prems have sub: "set (map ID msgs) \<subseteq> set (map ID (messages (store ?w1)))"
    by (simp add: map_ID_Updates)
  have "publish_loop e (msg # msgs) n w =
        publish_loop e msgs (if handed_off e msg then n + 1 else n) ?w1"
    by (rule publish_step [OF here])
  also have "\<dots> = (n + length (filter (handed_off e) (msg # msgs)),
          w\<lparr>store := (store w)\<lparr>messages :=
                 Updates (\<lambda>r. ID r \<in> set (map ID (msg # msgs))) (row_after_handoff e)
                   (messages (store w))\<rparr>,
             broker := broker w @ map JSON (filter (handed_off e) (msg # msgs)),
             trace := trace w @ concat (map (handoff_calls e) (msg # msgs))\<rparr>)"
    using Updates_insert [of "row_after_handoff e" "ID msg" "set (map ID msgs)"
                             "messages (store w)", OF _ fresh]
    by (simp add: Cons.IH [OF dist sub])
  finally show ?case .
qed

lemma GetPendingMessages_Inr:
  assumes "GetPendingMessages fault tie np limit s = Inr sel"
  shows "\<exists>n. sel = take n (sort_key CreatedAt
                           (sort_key tie (filter (\<lambda>m. Status m = StatusPending) (messages s))))"
proof -
  let ?rows = "sort_key CreatedAt
                 (sort_key tie (filter (\<lambda>m. Status m = StatusPending) (messages s)))"
  from assms have "sel = take (nat limit) ?rows \<or> sel = take 0 ?rows
                   \<or> sel = take (length ?rows) ?rows"
    by (auto simp: GetPendingMessages_def Let_def split: if_splits limit_reading.splits)
  then show ?thesis by blast
qed


lemma selected_rows:
  assumes "GetPendingMessages fault tie np limit s = Inr sel"
  shows "set sel \<subseteq> {m \<in> set (messages s). Status m = StatusPending}"
proof -
  from GetPendingMessages_Inr [OF assms] obtain n where
    "sel = take n (sort_key CreatedAt
                     (sort_key tie (filter (\<lambda>m. Status m = StatusPending) (messages s))))"
    by blast
  then show ?thesis
    by (auto dest!: in_set_takeD)
qed

lemma distinct_ID_selected:
  assumes "distinct (map ID (messages s))"
    and "GetPendingMessages fault tie np limit s = Inr sel"
  shows "distinct (map ID sel)"
proof -
  let ?pending = "filter (\<lambda>m. Status m = StatusPending) (messages s)"
  from GetPendingMessages_Inr [OF assms(2)] obtain n where
    sel: "sel = take n (sort_key CreatedAt (sort_key tie ?pending))"
    by blast
  have "distinct (map ID ?pending)"
    using assms(1) by (rule distinct_map_filter)
  then have "distinct (map ID (sort_key CreatedAt (sort_key tie ?pending)))"
    by (simp add: distinct_map)
  then have "distinct (take n (map ID (sort_key CreatedAt (sort_key tie ?pending))))"
    by (rule distinct_take)
  then show ?thesis
    by (simp add: sel take_map)
qed

lemma PublishPendingMessages_char:
  assumes "distinct (map ID (messages (store w)))"
    and "GetPendingMessages (fails e CGetPendingMessages) (tie_order e) (nonpositive_limit e)
        batchSize (store w) = Inr sel"
  shows "PublishPendingMessages e batchSize w =
           ((length (filter (handed_off e) sel), None),
            w\<lparr>store := (store w)\<lparr>messages :=
                   Updates (\<lambda>r. ID r \<in> set (map ID sel)) (row_after_handoff e)
                     (messages (store w))\<rparr>,
               broker := broker w @ map JSON (filter (handed_off e) sel),
               trace := trace w @ Called CGetPendingMessages True
                          # concat (map (handoff_calls e) sel)\<rparr>)"
proof -
  let ?w1 = "w\<lparr>trace := trace w @ [Called CGetPendingMessages True]\<rparr>"
  have get: "repo_GetPendingMessages e batchSize w = (Inr sel, ?w1)"
    by (simp add: repo_GetPendingMessages_def assms(2))
  have d: "distinct (map ID sel)"
    by (rule distinct_ID_selected [OF assms])
  have sub: "set (map ID sel) \<subseteq> set (map ID (messages (store ?w1)))"
    using selected_rows [OF assms(2)] by auto
  show ?thesis
    by (simp add: PublishPendingMessages_def get publish_loop_char [OF d sub])
qed

section \<open>C2: the publisher poll cycle\<close>

text \<open>
  C2, as the loop is written. In a poll cycle every selected pending row goes through
  the handoff in order: the update to queued first, then the publish, and after a
  failed publish the update back to pending is issued. The error of that last update is
  dropped: the row is pending again when the update succeeds and stays queued, with no
  body in the queue, when it fails too. An error of the store or of the broker on one
  row does not end the cycle: the trace of the cycle is the handoff of every selected
  row, one after the other, and no error is returned. The cycle returns the number of
  rows whose publish succeeded, which is zero when no row is selected; those rows are
  the bodies added to the queue, and each selected row is left as
  \<open>row_after_handoff\<close> says.
\<close>

theorem PublishPendingMessages_handoff:
  assumes "distinct (map ID (messages (store w)))"
    and "GetPendingMessages (fails e CGetPendingMessages) (tie_order e) (nonpositive_limit e)
        batchSize (store w) = Inr sel"
  shows "PublishPendingMessages e batchSize w =
           ((length (filter (handed_off e) sel), None),
            w\<lparr>store := (store w)\<lparr>messages :=
                   Updates (\<lambda>r. ID r \<in> set (map ID sel)) (row_after_handoff e)
                     (messages (store w))\<rparr>,
               broker := broker w @ map JSON (filter (handed_off e) sel),
               trace := trace w @ Called CGetPendingMessages True
                          # concat (map (handoff_calls e) sel)\<rparr>)
         \<and> (sel = [] \<longrightarrow> fst (fst (PublishPendingMessages e batchSize w)) = 0)"
  using PublishPendingMessages_char [OF assms] by simp

theorem PublishPendingMessages_handoff_witness:
  "distinct (map ID (messages (store demo_world)))
   \<and> GetPendingMessages (fails env_publish_fails CGetPendingMessages) (tie_order env_publish_fails) (nonpositive_limit env_publish_fails)
        100 (store demo_world)
       = Inr (take 2 demo_rows)
   \<and> fst (PublishPendingMessages env_publish_fails 100 demo_world) = (1, None)
   \<and> map Status (messages (store (snd (PublishPendingMessages env_publish_fails 100 demo_world))))
       = [''queued'', ''pending'', ''delivered'', ''sent'']
   \<and> broker (snd (PublishPendingMessages env_publish_fails 100 demo_world))
       = [JSON (demo_rows ! 0)]
   \<and> trace (snd (PublishPendingMessages env_publish_fails 100 demo_world))
       = [Called CGetPendingMessages True,
          Called (CUpdateMessageStatus 2 ''queued'') True, Called (CPublish 2) True,
          Called (CUpdateMessageStatus 3 ''queued'') True, Called (CPublish 3) False,
          Called (CUpdateMessageStatus 3 ''pending'') True]
   \<and> map Status (messages (store (snd (PublishPendingMessages env_compensation_fails 100
                                         demo_world))))
       = [''queued'', ''queued'', ''delivered'', ''sent'']
   \<and> GetPendingMessages (fails env_ok CGetPendingMessages) (tie_order env_ok) (nonpositive_limit env_ok)
        100 (store empty_world) = Inr []
   \<and> fst (fst (PublishPendingMessages env_ok 100 empty_world)) = 0"
proof -
  have d: "distinct (map ID (messages (store demo_world)))"
    by (simp add: demo_defs)
  have g: "GetPendingMessages (fails env_publish_fails CGetPendingMessages) (tie_order env_publish_fails) (nonpositive_limit env_publish_fails)
        100 (store demo_world)
           = Inr (take 2 demo_rows)"
    by (simp add: GetPendingMessages_def demo_defs env_publish_fails_def Status_defs)
  have g': "GetPendingMessages (fails env_compensation_fails CGetPendingMessages)
              (tie_order env_compensation_fails) (nonpositive_limit env_compensation_fails)
              100 (store demo_world)
           = Inr (take 2 demo_rows)"
    by (simp add: GetPendingMessages_def demo_defs env_compensation_fails_def Status_defs)
  have d0: "distinct (map ID (messages (store empty_world)))"
    by (simp add: demo_defs)
  have g0: "GetPendingMessages (fails env_ok CGetPendingMessages) (tie_order env_ok) (nonpositive_limit env_ok)
        100 (store empty_world) = Inr []"
    by (simp add: GetPendingMessages_def demo_defs)
  show ?thesis
    using PublishPendingMessages_handoff [OF d g] PublishPendingMessages_handoff [OF d g']
      PublishPendingMessages_handoff [OF d0 g0] d g g0
    by (simp add: demo_defs env_publish_fails_def env_compensation_fails_def handed_off_def
        handoff_calls_def row_after_handoff_def Updates_def Status_defs)
qed

text \<open>
  The broker refuses message 3 and the store then refuses the update back to pending:
  row 3 is not compensated. It stays queued and no body for it is in the queue.
\<close>

theorem PublishPendingMessages_uncompensated_counterexample:
  "fst (PublishPendingMessages env_compensation_fails 100 demo_world) = (1, None)
   \<and> map Status (messages (store (snd (PublishPendingMessages env_compensation_fails 100
                                         demo_world))))
       = [''queued'', ''queued'', ''delivered'', ''sent'']
   \<and> broker (snd (PublishPendingMessages env_compensation_fails 100 demo_world))
       = [JSON (demo_rows ! 0)]
   \<and> trace (snd (PublishPendingMessages env_compensation_fails 100 demo_world))
       = [Called CGetPendingMessages True,
          Called (CUpdateMessageStatus 2 ''queued'') True, Called (CPublish 2) True,
          Called (CUpdateMessageStatus 3 ''queued'') True, Called (CPublish 3) False,
          Called (CUpdateMessageStatus 3 ''pending'') False]"
  by (simp add: PublishPendingMessages_def exec_defs demo_defs env_compensation_fails_def
      Status_defs)

section \<open>C9: the selection of a poll cycle\<close>




section \<open>C10: what the status updates of the repository return\<close>

lemma UpdateMessageStatus_cases:
  "UpdateMessageStatus fault now i st s =
     (if fault then Inl (Wrapped ''update message status'' DriverError)
      else if i \<notin> set (map ID (messages s)) then Inl (NotFound (uuid_String i))
      else Inr (s\<lparr>messages := map (\<lambda>m. if ID m = i then m\<lparr>Status := st, UpdatedAt := now\<rparr> else m)
                                 (messages s)\<rparr>))"
  by (auto simp: UpdateMessageStatus_def RowsAffected_zero_iff Updates_def)

lemma UpdateMessageStatusByProviderID_cases:
  "UpdateMessageStatusByProviderID fault now p st s =
     (if fault then Inl (Wrapped ''update message status by provider id'' DriverError)
      else if p \<notin> set (map ProviderID (messages s)) then Inl (NotFound p)
      else Inr (s\<lparr>messages := map (\<lambda>m. if ProviderID m = p then m\<lparr>Status := st, UpdatedAt := now\<rparr> else m)
                                 (messages s)\<rparr>))"
  by (auto simp: UpdateMessageStatusByProviderID_def RowsAffected_zero_iff Updates_def)

lemma SetProviderID_cases:
  "SetProviderID fault now i p s =
     (if fault then Inl (Wrapped ''set provider id'' DriverError)
      else if i \<notin> set (map ID (messages s)) then Inl (NotFound (uuid_String i))
      else Inr (s\<lparr>messages := map (\<lambda>m. if ID m = i then m\<lparr>ProviderID := p, UpdatedAt := now\<rparr> else m)
                                 (messages s)\<rparr>))"
  by (auto simp: SetProviderID_def RowsAffected_zero_iff Updates_def)

text \<open>
  C10, with the driver's own error added. \<open>UpdateMessageStatus\<close> and
  \<open>UpdateMessageStatusByProviderID\<close> return an error exactly when the driver reports
  one or no row matches the id (the provider id). When the driver reports none and a
  row matches, the update succeeds whatever the status of the row was: every matching
  row gets exactly the supplied status and the clock reading, all other rows stay as
  they were. No repository operation returns \<open>ErrInvalidStatus\<close>, bare or wrapped.
\<close>

theorem status_updates_unconditional:
  "(isl (UpdateMessageStatus fault now i st s) \<longleftrightarrow> fault \<or> i \<notin> set (map ID (messages s)))
   \<and> (isl (UpdateMessageStatusByProviderID fault now p st s)
        \<longleftrightarrow> fault \<or> p \<notin> set (map ProviderID (messages s)))
   \<and> (\<not> fault \<and> i \<in> set (map ID (messages s)) \<longrightarrow>
        UpdateMessageStatus fault now i st s =
          Inr (s\<lparr>messages := map (\<lambda>m. if ID m = i then m\<lparr>Status := st, UpdatedAt := now\<rparr> else m)
                                (messages s)\<rparr>))
   \<and> (\<not> fault \<and> p \<in> set (map ProviderID (messages s)) \<longrightarrow>
        UpdateMessageStatusByProviderID fault now p st s =
          Inr (s\<lparr>messages := map (\<lambda>m. if ProviderID m = p then m\<lparr>Status := st, UpdatedAt := now\<rparr> else m)
                                (messages s)\<rparr>))
   \<and> no_ErrInvalidStatus (UpdateMessageStatus fault now i st s)
   \<and> no_ErrInvalidStatus (UpdateMessageStatusByProviderID fault now p st s)
   \<and> no_ErrInvalidStatus (SetProviderID fault now i p s)
   \<and> no_ErrInvalidStatus (GetPendingMessages fault tie np limit s)
   \<and> no_ErrInvalidStatus (SaveBroadcast fault b s)
   \<and> no_ErrInvalidStatus (SaveMessages fault msgs s)"
  by (simp add: UpdateMessageStatus_cases UpdateMessageStatusByProviderID_cases SetProviderID_cases
      no_ErrInvalidStatus_def GetPendingMessages_def SaveBroadcast_def SaveMessages_def Let_def
      split: limit_reading.splits)

theorem status_updates_unconditional_witness:
  "4 \<in> set (map ID (messages (store demo_world)))
   \<and> Status (messages (store demo_world) ! 2) = StatusDelivered
   \<and> \<not> isl (UpdateMessageStatus False 9 4 StatusPending (store demo_world))
   \<and> map Status (messages (projr (UpdateMessageStatus False 9 4 StatusPending (store demo_world))))
       = [''pending'', ''pending'', ''pending'', ''sent'']
   \<and> ''00000000-0000-0000-0000-0000000000aa'' \<in> set (map ProviderID (messages (store demo_world)))
   \<and> map Status (messages (projr (UpdateMessageStatusByProviderID False 9
          ''00000000-0000-0000-0000-0000000000aa'' StatusPending (store demo_world))))
       = [''pending'', ''pending'', ''pending'', ''sent'']"
  using status_updates_unconditional [of False 9 4 StatusPending "store demo_world"
          "''00000000-0000-0000-0000-0000000000aa''" "\<lambda>m. 0" Refused 1
          "\<lparr>Broadcast.ID = 1, Broadcast.Name = ''n'', Broadcast.CreatedAt = 3\<rparr>" "[]"]
  by (simp add: demo_defs Status_defs)

text \<open>
  A row with id 2 exists, the driver reports an error: the update returns an error
  although a row matches.
\<close>

theorem UpdateMessageStatus_driver_error_counterexample:
  "2 \<in> set (map ID (messages (store demo_world)))
   \<and> UpdateMessageStatus True 9 2 StatusQueued (store demo_world)
       = Inl (Wrapped ''update message status'' DriverError)"
  by (simp add: UpdateMessageStatus_def demo_defs)

section \<open>C7: the same DLR twice\<close>

lemma HandleDLR_char:
  "HandleDLR e dlr w =
     (let p = uuid_String (DLRPayload.ProviderID dlr); st = DLRPayload.Status dlr;
          c = CUpdateMessageStatusByProviderID p st
      in if fails e c
         then (Some (Wrapped ''update dlr status''
                       (Wrapped ''update message status by provider id'' DriverError)),
               w\<lparr>trace := trace w @ [Called c False]\<rparr>)
         else if p \<notin> set (map ProviderID (messages (store w)))
         then (Some (Wrapped ''update dlr status'' (NotFound p)),
               w\<lparr>trace := trace w @ [Called c False]\<rparr>)
         else (None,
               w\<lparr>store := (store w)\<lparr>messages :=
                      map (\<lambda>m. if ProviderID m = p
                                then m\<lparr>Status := st, UpdatedAt := time_Now e c\<rparr> else m)
                        (messages (store w))\<rparr>,
                  trace := trace w @ [Called c True]\<rparr>))"
  by (simp add: HandleDLR_def repo_UpdateMessageStatusByProviderID_def db_exec_def Let_def
      UpdateMessageStatusByProviderID_cases)

text \<open>
  C7, up to the timestamp. When the store executes both updates, applying the same DLR
  a second time leaves every matched row as the first application left it in every
  field except \<open>updated_at\<close>, which takes the clock reading of the second
  application; the broadcasts are untouched. Two applications leave the store as one
  application at the later clock reading does, so when the clock reads the same both
  times the store is the same.
\<close>

theorem HandleDLR_twice:
  assumes "\<not> fails e1 (CUpdateMessageStatusByProviderID
                          (uuid_String (DLRPayload.ProviderID dlr)) (DLRPayload.Status dlr))"
    and "\<not> fails e2 (CUpdateMessageStatusByProviderID
                          (uuid_String (DLRPayload.ProviderID dlr)) (DLRPayload.Status dlr))"
  shows "map without_UpdatedAt (messages (store (snd (HandleDLR e2 dlr (snd (HandleDLR e1 dlr w))))))
           = map without_UpdatedAt (messages (store (snd (HandleDLR e1 dlr w))))
       \<and> broadcasts (store (snd (HandleDLR e2 dlr (snd (HandleDLR e1 dlr w)))))
           = broadcasts (store (snd (HandleDLR e1 dlr w)))
       \<and> store (snd (HandleDLR e2 dlr (snd (HandleDLR e1 dlr w)))) = store (snd (HandleDLR e2 dlr w))
       \<and> (time_Now e2 (CUpdateMessageStatusByProviderID
                          (uuid_String (DLRPayload.ProviderID dlr)) (DLRPayload.Status dlr))
            = time_Now e1 (CUpdateMessageStatusByProviderID
                          (uuid_String (DLRPayload.ProviderID dlr)) (DLRPayload.Status dlr))
           \<longrightarrow> store (snd (HandleDLR e2 dlr (snd (HandleDLR e1 dlr w))))
                 = store (snd (HandleDLR e1 dlr w)))"
proof (cases "uuid_String (DLRPayload.ProviderID dlr) \<in> set (map ProviderID (messages (store w)))")
  case False
  with assms show ?thesis
    by (simp add: HandleDLR_char Let_def)
next
  case True
  let ?p = "uuid_String (DLRPayload.ProviderID dlr)"
  let ?g = "\<lambda>t m. if ProviderID m = ?p
                   then m\<lparr>Status := DLRPayload.Status dlr, UpdatedAt := t\<rparr> else m"
  have still: "\<And>t. ?p \<in> set (map ProviderID (map (?g t) (messages (store w))))"
    using True by (auto simp: image_iff)
  have comp: "\<And>t t'. map (?g t') (map (?g t) (messages (store w))) = map (?g t') (messages (store w))"
    by simp
  have erase: "\<And>t t'. map without_UpdatedAt (map (?g t') (messages (store w)))
                      = map without_UpdatedAt (map (?g t) (messages (store w)))"
    by (simp add: without_UpdatedAt_def)
  show ?thesis
    using assms True still comp erase
    apply (simp add: HandleDLR_char Let_def)
    apply (simp add: without_UpdatedAt_def)
    done
qed


lemmas uuid_eval = uuid_String_def hexdigit_def hexbyte_def byte_at_def

theorem HandleDLR_twice_witness:
  "\<not> fails env_ok (CUpdateMessageStatusByProviderID
                     (uuid_String (DLRPayload.ProviderID dlr_cc)) (DLRPayload.Status dlr_cc))
   \<and> \<not> fails env_later (CUpdateMessageStatusByProviderID
                     (uuid_String (DLRPayload.ProviderID dlr_cc)) (DLRPayload.Status dlr_cc))
   \<and> fst (HandleDLR env_ok dlr_cc demo_world) = None
   \<and> map Status (messages (store (snd (HandleDLR env_ok dlr_cc demo_world))))
       = [''pending'', ''pending'', ''delivered'', ''delivered'']
   \<and> map without_UpdatedAt
         (messages (store (snd (HandleDLR env_later dlr_cc (snd (HandleDLR env_ok dlr_cc demo_world))))))
       = map without_UpdatedAt (messages (store (snd (HandleDLR env_ok dlr_cc demo_world))))
   \<and> store (snd (HandleDLR env_ok dlr_cc (snd (HandleDLR env_ok dlr_cc demo_world))))
       = store (snd (HandleDLR env_ok dlr_cc demo_world))"
proof -
  have h1: "\<not> fails env_ok (CUpdateMessageStatusByProviderID
                     (uuid_String (DLRPayload.ProviderID dlr_cc)) (DLRPayload.Status dlr_cc))"
    by (simp add: env_ok_def)
  have h2: "\<not> fails env_later (CUpdateMessageStatusByProviderID
                     (uuid_String (DLRPayload.ProviderID dlr_cc)) (DLRPayload.Status dlr_cc))"
    by (simp add: env_ok_def env_later_def)
  have once: "fst (HandleDLR env_ok dlr_cc demo_world) = None
     \<and> map Status (messages (store (snd (HandleDLR env_ok dlr_cc demo_world))))
       = [''pending'', ''pending'', ''delivered'', ''delivered'']"
    by (simp add: HandleDLR_char Let_def dlr_cc_def uuid_eval demo_defs Status_defs)
  from HandleDLR_twice [OF h1 h2, of demo_world] HandleDLR_twice [OF h1 h1, of demo_world]
    h1 h2 once show ?thesis
    by blast
qed

text \<open>
  The row with provider id \<open>...cc\<close> after one application at clock 9 and after a
  second one at clock 12: \<open>updated_at\<close> is 9 and then 12, the rows differ.
\<close>

theorem HandleDLR_twice_counterexample:
  "messages (store (snd (HandleDLR env_later dlr_cc (snd (HandleDLR env_ok dlr_cc demo_world)))))
       \<noteq> messages (store (snd (HandleDLR env_ok dlr_cc demo_world)))
   \<and> map UpdatedAt (messages (store (snd (HandleDLR env_ok dlr_cc demo_world)))) = [5, 5, 8, 9]
   \<and> map UpdatedAt
         (messages (store (snd (HandleDLR env_later dlr_cc (snd (HandleDLR env_ok dlr_cc demo_world))))))
       = [5, 5, 8, 12]"
  by (simp add: HandleDLR_char Let_def dlr_cc_def uuid_eval demo_defs env_later_def Status_defs)

section \<open>C8: writes of the provider id\<close>

lemma repo_UpdateMessageStatus_store:
  "store (snd (repo_UpdateMessageStatus e i st w)) =
     (if fails e (CUpdateMessageStatus i st) then store w
      else (store w)\<lparr>messages :=
              map (\<lambda>m. if ID m = i
                        then m\<lparr>Status := st, UpdatedAt := time_Now e (CUpdateMessageStatus i st)\<rparr>
                        else m) (messages (store w))\<rparr>)"
proof -
  have same: "i \<notin> set (map ID (messages (store w))) \<Longrightarrow>
        map (\<lambda>m. if ID m = i
                        then m\<lparr>Status := st, UpdatedAt := time_Now e (CUpdateMessageStatus i st)\<rparr>
                        else m) (messages (store w)) = messages (store w)"
    by (intro map_idI) auto
  show ?thesis
    using same
    by (auto simp add: repo_UpdateMessageStatus_def db_exec_def Let_def UpdateMessageStatus_cases)
qed

lemma repo_SetProviderID_store:
  "store (snd (repo_SetProviderID e i p w)) =
     (if fails e (CSetProviderID i p) then store w
      else (store w)\<lparr>messages :=
              map (\<lambda>m. if ID m = i
                        then m\<lparr>ProviderID := p, UpdatedAt := time_Now e (CSetProviderID i p)\<rparr>
                        else m) (messages (store w))\<rparr>)"
proof -
  have same: "i \<notin> set (map ID (messages (store w))) \<Longrightarrow>
        map (\<lambda>m. if ID m = i
                        then m\<lparr>ProviderID := p, UpdatedAt := time_Now e (CSetProviderID i p)\<rparr>
                        else m) (messages (store w)) = messages (store w)"
    by (intro map_idI) auto
  show ?thesis
    using same
    by (auto simp add: repo_SetProviderID_def db_exec_def Let_def SetProviderID_cases)
qed


lemma provider_after_update [simp]:
  "map ProviderID (messages (store (snd (repo_UpdateMessageStatus e i st w))))
     = map ProviderID (messages (store w))"
  by (simp add: repo_UpdateMessageStatus_store o_def cong: if_cong)

lemma store_after_Publish:
  "store (snd (publisher_Publish e msg w)) = store w"
  by (simp add: publisher_Publish_def Let_def)

lemma publish_loop_provider:
  "map ProviderID (messages (store (snd (publish_loop e msgs n w))))
     = map ProviderID (messages (store w))"
proof (induction msgs arbitrary: n w)
  case Nil
  show ?case by simp
next
  case (Cons msg msgs)
  let ?r1 = "repo_UpdateMessageStatus e (ID msg) StatusQueued w"
  let ?r2 = "publisher_Publish e msg (snd ?r1)"
  let ?r3 = "repo_UpdateMessageStatus e (ID msg) StatusPending (snd ?r2)"
  have p1: "map ProviderID (messages (store (snd ?r1))) = map ProviderID (messages (store w))"
    by simp
  have p2: "map ProviderID (messages (store (snd ?r2))) = map ProviderID (messages (store w))"
    by (simp add: store_after_Publish)
  have p3: "map ProviderID (messages (store (snd ?r3))) = map ProviderID (messages (store w))"
    by (simp add: store_after_Publish)
  show ?case
  proof (cases ?r1)
    case (Pair a w1)
    note r1 = this
    show ?thesis
    proof (cases a)
      case (Some err)
      with r1 p1 show ?thesis by (simp add: Cons.IH)
    next
      case None
      show ?thesis
      proof (cases "publisher_Publish e msg w1")
        case (Pair b w2)
        with r1 None p1 p2 p3 show ?thesis
          by (cases b) (simp_all add: Cons.IH)
      qed
    qed
  qed
qed

lemma PublishPendingMessages_provider:
  "map ProviderID (messages (store (snd (PublishPendingMessages e batchSize w))))
     = map ProviderID (messages (store w))"
proof (cases "GetPendingMessages (fails e CGetPendingMessages) (tie_order e) (nonpositive_limit e)
        batchSize (store w)")
  case (Inl err)
  then show ?thesis
    by (simp add: PublishPendingMessages_def repo_GetPendingMessages_def)
next
  case (Inr msgs)
  let ?w1 = "w\<lparr>trace := trace w @ [Called CGetPendingMessages True]\<rparr>"
  have "map ProviderID (messages (store (snd (publish_loop e msgs 0 ?w1))))
          = map ProviderID (messages (store ?w1))"
    by (rule publish_loop_provider)
  with Inr show ?thesis
    by (cases "publish_loop e msgs 0 ?w1")
       (simp add: PublishPendingMessages_def repo_GetPendingMessages_def)
qed

lemma snd_case_error:
  "snd (case r of (Some err, w3) \<Rightarrow> (h err, w3) | (None, w3) \<Rightarrow> (k, w3)) = snd r"
  by (cases r; cases "fst r") auto

lemma SendMessage_store:
  "store (snd (SendMessage e msg w)) =
     (if fails e (CSend (ID msg))
      then store (snd (repo_UpdateMessageStatus e (ID msg) StatusFailed w))
      else store (snd (repo_UpdateMessageStatus e (ID msg) StatusSent
                   (snd (repo_SetProviderID e (ID msg) (provider_id e (ID msg)) w)))))"
proof -
  show ?thesis
    by (simp add: SendMessage_def provider_Send_def Let_def snd_case_error
        repo_UpdateMessageStatus_store repo_SetProviderID_store)
qed

text \<open>
  C8, as the code writes the provider id. A worker send whose gateway call and whose
  \<open>SetProviderID\<close> both succeed stores the id this send received on the row of the
  message, whatever the row held before, and leaves the provider id of every other
  row alone; a send that fails at the gateway or at \<open>SetProviderID\<close> changes no
  provider id. DLR handling and a publisher poll cycle never change a provider id.
\<close>

theorem provider_id_overwritten:
  "map ProviderID (messages (store (snd (SendMessage e msg w))))
     = map (\<lambda>m. if ID m = ID msg \<and> \<not> fails e (CSend (ID msg))
                     \<and> \<not> fails e (CSetProviderID (ID msg) (provider_id e (ID msg)))
                 then provider_id e (ID msg) else ProviderID m)
         (messages (store w))
   \<and> map ProviderID (messages (store (snd (HandleDLR e dlr w))))
       = map ProviderID (messages (store w))
   \<and> map ProviderID (messages (store (snd (PublishPendingMessages e batchSize w))))
       = map ProviderID (messages (store w))"
proof -
  have dlr: "map ProviderID (messages (store (snd (HandleDLR e dlr w))))
       = map ProviderID (messages (store w))"
    by (simp add: HandleDLR_char Let_def o_def cong: if_cong)
  have send: "map ProviderID (messages (store (snd (SendMessage e msg w))))
     = map (\<lambda>m. if ID m = ID msg \<and> \<not> fails e (CSend (ID msg))
                     \<and> \<not> fails e (CSetProviderID (ID msg) (provider_id e (ID msg)))
                 then provider_id e (ID msg) else ProviderID m)
         (messages (store w))"
    by (simp add: SendMessage_store repo_SetProviderID_store o_def cong: if_cong)
  from send dlr PublishPendingMessages_provider show ?thesis by blast
qed


theorem provider_id_overwritten_witness:
  "map ProviderID (messages (store (snd (SendMessage env_ok (demo_rows ! 3) demo_world))))
     = [[], [], ''00000000-0000-0000-0000-0000000000aa'', ''00000000-0000-0000-0000-0000000000bb'']
   \<and> map ProviderID (messages (store (snd (HandleDLR env_ok dlr_cc demo_world))))
     = [[], [], ''00000000-0000-0000-0000-0000000000aa'', ''00000000-0000-0000-0000-0000000000cc'']
   \<and> map ProviderID (messages (store (snd (PublishPendingMessages env_ok 100 demo_world))))
     = [[], [], ''00000000-0000-0000-0000-0000000000aa'', ''00000000-0000-0000-0000-0000000000cc'']"
  using provider_id_overwritten [of env_ok "demo_rows ! 3" demo_world dlr_cc 100]
  by (simp add: demo_defs)

text \<open>
  A delivery whose send stores the id \<open>...bb\<close> and then fails at the status update is
  requeued; the next send of the same delivery receives \<open>...dd\<close> and stores it over
  the first id.
\<close>

theorem provider_id_resend_counterexample:
  "map ProviderID (messages (store (Consume_step (SendMessage env_status_fails) queued_world)))
       = [''00000000-0000-0000-0000-0000000000bb'', []]
   \<and> broker (Consume_step (SendMessage env_status_fails) queued_world) = broker queued_world
   \<and> map ProviderID (messages (store (Consume_step (SendMessage env_resend)
                                    (Consume_step (SendMessage env_status_fails) queued_world))))
       = [''00000000-0000-0000-0000-0000000000dd'', []]"
  by (simp add: exec_defs run_defs env_resend_def)

section \<open>The worker: one delivery\<close>

lemma Updates_none: "(\<And>m. m \<in> set rows \<Longrightarrow> \<not> c m) \<Longrightarrow> Updates c f rows = rows"
  unfolding Updates_def by (intro map_idI) auto

lemma repo_UpdateMessageStatus_char:
  "repo_UpdateMessageStatus e i st w =
     (let c = CUpdateMessageStatus i st;
          ok = (\<not> fails e c \<and> i \<in> set (map ID (messages (store w))))
      in (if ok then None
          else Some (if fails e c then Wrapped ''update message status'' DriverError
                     else NotFound (uuid_String i)),
          w\<lparr>store := (store w)\<lparr>messages :=
                 Updates (\<lambda>m. ID m = i \<and> \<not> fails e c)
                   (\<lambda>m. m\<lparr>Status := st, UpdatedAt := time_Now e c\<rparr>) (messages (store w))\<rparr>,
            trace := trace w @ [Called c ok]\<rparr>))"
proof (cases "i \<in> set (map ID (messages (store w)))")
  case True
  show ?thesis
    using True by (simp add: repo_UpdateMessageStatus_found [OF True] Let_def Updates_False)
next
  case False
  then have "Updates (\<lambda>m. ID m = i \<and> \<not> fails e (CUpdateMessageStatus i st))
                   (\<lambda>m. m\<lparr>Status := st, UpdatedAt := time_Now e (CUpdateMessageStatus i st)\<rparr>)
                   (messages (store w)) = messages (store w)"
    by (intro Updates_none) auto
  then show ?thesis
    using False by (simp add: repo_UpdateMessageStatus_missing [OF False] Let_def)
qed

lemma repo_SetProviderID_char:
  "repo_SetProviderID e i p w =
     (let c = CSetProviderID i p;
          ok = (\<not> fails e c \<and> i \<in> set (map ID (messages (store w))))
      in (if ok then None
          else Some (if fails e c then Wrapped ''set provider id'' DriverError
                     else NotFound (uuid_String i)),
          w\<lparr>store := (store w)\<lparr>messages :=
                 Updates (\<lambda>m. ID m = i \<and> \<not> fails e c)
                   (\<lambda>m. m\<lparr>ProviderID := p, UpdatedAt := time_Now e c\<rparr>) (messages (store w))\<rparr>,
            trace := trace w @ [Called c ok]\<rparr>))"
proof (cases "i \<in> set (map ID (messages (store w)))")
  case True
  then show ?thesis
    by (simp add: repo_SetProviderID_def db_exec_def SetProviderID_cases Let_def Updates_def
        Updates_False)
next
  case False
  then have "Updates (\<lambda>m. ID m = i \<and> \<not> fails e (CSetProviderID i p))
                   (\<lambda>m. m\<lparr>ProviderID := p, UpdatedAt := time_Now e (CSetProviderID i p)\<rparr>)
                   (messages (store w)) = messages (store w)"
    by (intro Updates_none) auto
  then show ?thesis
    using False by (simp add: repo_SetProviderID_def db_exec_def SetProviderID_cases Let_def)
qed


lemma case_error_pair:
  "(case r of (Some err, w3) \<Rightarrow> (h err, w3) | (None, w3) \<Rightarrow> (k, w3))
     = ((case fst r of Some err \<Rightarrow> h err | None \<Rightarrow> k), snd r)"
  by (cases r; cases "fst r") auto

lemma case_error_None:
  "((case x of Some err \<Rightarrow> Some (h err) | None \<Rightarrow> None) = None) = (x = None)"
  by (cases x) auto

lemma case_error_world:
  "(case r of (Some err, w1) \<Rightarrow> A w1 | (None, w1) \<Rightarrow> B w1)
     = (if fst r = None then B (snd r) else A (snd r))"
  by (cases r; cases "fst r") auto

lemma fst_repo_UpdateMessageStatus:
  "fst (repo_UpdateMessageStatus e i st w) = None
     \<longleftrightarrow> \<not> fails e (CUpdateMessageStatus i st) \<and> i \<in> set (map ID (messages (store w)))"
  by (simp add: repo_UpdateMessageStatus_char Let_def)

lemma trace_repo_UpdateMessageStatus:
  "trace (snd (repo_UpdateMessageStatus e i st w)) =
     trace w @ [Called (CUpdateMessageStatus i st)
                  (\<not> fails e (CUpdateMessageStatus i st) \<and> i \<in> set (map ID (messages (store w))))]"
  by (simp add: repo_UpdateMessageStatus_char Let_def)

lemma broker_repo_UpdateMessageStatus:
  "broker (snd (repo_UpdateMessageStatus e i st w)) = broker w"
  by (simp add: repo_UpdateMessageStatus_char Let_def)

lemma trace_repo_SetProviderID:
  "trace (snd (repo_SetProviderID e i p w)) =
     trace w @ [Called (CSetProviderID i p)
                  (\<not> fails e (CSetProviderID i p) \<and> i \<in> set (map ID (messages (store w))))]"
  by (simp add: repo_SetProviderID_char Let_def)

lemma broker_repo_SetProviderID:
  "broker (snd (repo_SetProviderID e i p w)) = broker w"
  by (simp add: repo_SetProviderID_char Let_def)

lemma ids_repo_SetProviderID:
  "map ID (messages (store (snd (repo_SetProviderID e i p w)))) = map ID (messages (store w))"
  by (simp add: repo_SetProviderID_char Let_def map_ID_Updates)

lemmas repo_fields =
  fst_repo_UpdateMessageStatus trace_repo_UpdateMessageStatus broker_repo_UpdateMessageStatus
  trace_repo_SetProviderID broker_repo_SetProviderID

lemma SendMessage_failed:
  assumes "fails e (CSend (ID msg))"
  shows "fst (SendMessage e msg w) = Some (Wrapped ''provider send'' DriverError)"
    and "broker (snd (SendMessage e msg w)) = broker w"
    and "trace (snd (SendMessage e msg w)) =
           trace w @ [Called (CSend (ID msg)) False,
                      Called (CUpdateMessageStatus (ID msg) StatusFailed)
                        (\<not> fails e (CUpdateMessageStatus (ID msg) StatusFailed)
                         \<and> ID msg \<in> set (map ID (messages (store w))))]"
  using assms by (simp_all add: SendMessage_def provider_Send_def Let_def repo_fields)

lemma SendMessage_submitted:
  assumes "\<not> fails e (CSend (ID msg))"
  shows "fst (SendMessage e msg w) = None
           \<longleftrightarrow> \<not> fails e (CUpdateMessageStatus (ID msg) StatusSent)
               \<and> ID msg \<in> set (map ID (messages (store w)))"
    and "broker (snd (SendMessage e msg w)) = broker w"
    and "trace (snd (SendMessage e msg w)) =
           trace w @ [Called (CSend (ID msg)) True,
                      Called (CSetProviderID (ID msg) (provider_id e (ID msg)))
                        (\<not> fails e (CSetProviderID (ID msg) (provider_id e (ID msg)))
                         \<and> ID msg \<in> set (map ID (messages (store w)))),
                      Called (CUpdateMessageStatus (ID msg) StatusSent)
                        (\<not> fails e (CUpdateMessageStatus (ID msg) StatusSent)
                         \<and> ID msg \<in> set (map ID (messages (store w))))]"
proof -
  have ids: "set (map ID (messages (store (snd (repo_SetProviderID e (ID msg) (provider_id e (ID msg))
                 (w\<lparr>trace := trace w @ [Called (CSend (ID msg)) True]\<rparr>))))))
             = set (map ID (messages (store w)))"
    by (simp only: ids_repo_SetProviderID) simp
  show "fst (SendMessage e msg w) = None
           \<longleftrightarrow> \<not> fails e (CUpdateMessageStatus (ID msg) StatusSent)
               \<and> ID msg \<in> set (map ID (messages (store w)))"
    using assms ids
    by (simp add: SendMessage_def provider_Send_def Let_def case_error_pair case_error_None
        fst_repo_UpdateMessageStatus)
  show "broker (snd (SendMessage e msg w)) = broker w"
    using assms
    by (simp add: SendMessage_def provider_Send_def Let_def case_error_pair repo_fields)
  show "trace (snd (SendMessage e msg w)) =
           trace w @ [Called (CSend (ID msg)) True,
                      Called (CSetProviderID (ID msg) (provider_id e (ID msg)))
                        (\<not> fails e (CSetProviderID (ID msg) (provider_id e (ID msg)))
                         \<and> ID msg \<in> set (map ID (messages (store w)))),
                      Called (CUpdateMessageStatus (ID msg) StatusSent)
                        (\<not> fails e (CUpdateMessageStatus (ID msg) StatusSent)
                         \<and> ID msg \<in> set (map ID (messages (store w))))]"
    using assms ids
    by (simp add: SendMessage_def provider_Send_def Let_def case_error_pair
        trace_repo_UpdateMessageStatus trace_repo_SetProviderID)
qed

lemma Consume_step_JSON:
  assumes "broker w = JSON msg # rest"
  shows "Consume_step h w =
           (if fst (h msg (w\<lparr>broker := rest\<rparr>)) = None
            then (snd (h msg (w\<lparr>broker := rest\<rparr>)))
                   \<lparr>trace := trace (snd (h msg (w\<lparr>broker := rest\<rparr>))) @ [Ack]\<rparr>
            else (snd (h msg (w\<lparr>broker := rest\<rparr>)))
                   \<lparr>broker := JSON msg # broker (snd (h msg (w\<lparr>broker := rest\<rparr>))),
                    trace := trace (snd (h msg (w\<lparr>broker := rest\<rparr>))) @ [Nack True]\<rparr>)"
  using assms by (simp add: Consume_step_def case_error_world)

lemma store_Consume_step:
  assumes "broker w = JSON msg # rest"
  shows "store (Consume_step h w) = store (snd (h msg (w\<lparr>broker := rest\<rparr>)))"
  by (simp add: Consume_step_JSON [OF assms])

section \<open>C3: the gateway rejects a send\<close>

text \<open>
  C3, as the worker and the consumer are written. When the gateway's \<open>Send\<close> returns
  an error for the delivery at the head of the queue, \<open>SendMessage\<close> issues the
  update of the row to failed (it takes effect when the store executes it, whatever
  the status of the row was, and its own error is dropped) and returns the gateway's
  error; the consumer then nacks the delivery with requeue, so the delivery is at the
  head of the queue again. The calls happen in this order: send, update, nack.
\<close>

theorem gateway_error_nack_requeue:
  assumes "broker w = JSON msg # rest" and "fails e (CSend (ID msg))"
  shows "trace (Consume_step (SendMessage e) w) =
           trace w @ [Called (CSend (ID msg)) False,
                      Called (CUpdateMessageStatus (ID msg) StatusFailed)
                        (\<not> fails e (CUpdateMessageStatus (ID msg) StatusFailed)
                         \<and> ID msg \<in> set (map ID (messages (store w)))),
                      Nack True]
       \<and> broker (Consume_step (SendMessage e) w) = JSON msg # rest
       \<and> messages (store (Consume_step (SendMessage e) w)) =
           map (\<lambda>m. if ID m = ID msg \<and> \<not> fails e (CUpdateMessageStatus (ID msg) StatusFailed)
                     then m\<lparr>Status := StatusFailed,
                            UpdatedAt := time_Now e (CUpdateMessageStatus (ID msg) StatusFailed)\<rparr>
                     else m)
             (messages (store w))"
proof -
  let ?w0 = "w\<lparr>broker := rest\<rparr>"
  note sm = SendMessage_failed [OF assms(2), of ?w0]
  have t: "trace (Consume_step (SendMessage e) w) =
           trace w @ [Called (CSend (ID msg)) False,
                      Called (CUpdateMessageStatus (ID msg) StatusFailed)
                        (\<not> fails e (CUpdateMessageStatus (ID msg) StatusFailed)
                         \<and> ID msg \<in> set (map ID (messages (store w)))),
                      Nack True]"
    by (simp add: Consume_step_JSON [OF assms(1)] sm)
  have b: "broker (Consume_step (SendMessage e) w) = JSON msg # rest"
    by (simp add: Consume_step_JSON [OF assms(1)] sm)
  have s: "messages (store (Consume_step (SendMessage e) w)) =
           map (\<lambda>m. if ID m = ID msg \<and> \<not> fails e (CUpdateMessageStatus (ID msg) StatusFailed)
                     then m\<lparr>Status := StatusFailed,
                            UpdatedAt := time_Now e (CUpdateMessageStatus (ID msg) StatusFailed)\<rparr>
                     else m)
             (messages (store w))"
    using assms(2)
    by (simp add: store_Consume_step [OF assms(1)] SendMessage_store repo_UpdateMessageStatus_store)
  from t b s show ?thesis by blast
qed

theorem gateway_error_nack_requeue_witness:
  "broker queued_world = JSON (demo_rows ! 0) # [JSON (demo_rows ! 1)]
   \<and> fails env_gateway_down (CSend (ID (demo_rows ! 0)))
   \<and> trace (Consume_step (SendMessage env_gateway_down) queued_world) =
       [Called (CSend 2) False, Called (CUpdateMessageStatus 2 ''failed'') True, Nack True]
   \<and> broker (Consume_step (SendMessage env_gateway_down) queued_world) = broker queued_world
   \<and> map Status (messages (store (Consume_step (SendMessage env_gateway_down) queued_world)))
       = [''failed'', ''queued'']"
proof -
  have b: "broker queued_world = JSON (demo_rows ! 0) # [JSON (demo_rows ! 1)]"
    by (simp add: run_defs)
  have f: "fails env_gateway_down (CSend (ID (demo_rows ! 0)))"
    by (simp add: run_defs)
  from gateway_error_nack_requeue [OF b f] b f show ?thesis
    by (simp add: run_defs)
qed

text \<open>
  The gateway is down for message 2: its row becomes failed and the delivery is nacked
  with requeue, not acknowledged; the queue is as it was.
\<close>

theorem gateway_error_requeued_counterexample:
  "trace (Consume_step (SendMessage env_gateway_down) queued_world) =
       [Called (CSend 2) False, Called (CUpdateMessageStatus 2 ''failed'') True, Nack True]
   \<and> broker (Consume_step (SendMessage env_gateway_down) queued_world) = broker queued_world
   \<and> hd (broker queued_world) = JSON (demo_rows ! 0)
   \<and> ID (demo_rows ! 0) = 2"
  by (simp add: exec_defs run_defs)

section \<open>C4: the gateway accepts a send\<close>

text \<open>
  C4, as the worker is written. When the gateway's \<open>Send\<close> succeeds, the worker
  calls \<open>SetProviderID\<close> with the returned id, then the update to sent, and only
  then the consumer decides: the delivery is acknowledged (and leaves the queue)
  exactly when the update to sent succeeded, and is nacked with requeue when that
  update failed. The outcome of \<open>SetProviderID\<close> takes no part in the decision: its
  error is logged and dropped. The row of the message is left as
  \<open>row_after_send\<close> says, all other rows are untouched.
\<close>

theorem gateway_success_ack:
  assumes "broker w = JSON msg # rest" and "\<not> fails e (CSend (ID msg))"
  shows "trace (Consume_step (SendMessage e) w) =
           trace w @ [Called (CSend (ID msg)) True,
                      Called (CSetProviderID (ID msg) (provider_id e (ID msg)))
                        (\<not> fails e (CSetProviderID (ID msg) (provider_id e (ID msg)))
                         \<and> ID msg \<in> set (map ID (messages (store w)))),
                      Called (CUpdateMessageStatus (ID msg) StatusSent)
                        (\<not> fails e (CUpdateMessageStatus (ID msg) StatusSent)
                         \<and> ID msg \<in> set (map ID (messages (store w)))),
                      if \<not> fails e (CUpdateMessageStatus (ID msg) StatusSent)
                         \<and> ID msg \<in> set (map ID (messages (store w)))
                      then Ack else Nack True]
       \<and> broker (Consume_step (SendMessage e) w) =
           (if \<not> fails e (CUpdateMessageStatus (ID msg) StatusSent)
               \<and> ID msg \<in> set (map ID (messages (store w)))
            then rest else JSON msg # rest)
       \<and> messages (store (Consume_step (SendMessage e) w)) =
           map (\<lambda>m. if ID m = ID msg then row_after_send e m else m) (messages (store w))"
proof -
  let ?w0 = "w\<lparr>broker := rest\<rparr>"
  note sm = SendMessage_submitted [OF assms(2), of ?w0]
  have t: "trace (Consume_step (SendMessage e) w) =
           trace w @ [Called (CSend (ID msg)) True,
                      Called (CSetProviderID (ID msg) (provider_id e (ID msg)))
                        (\<not> fails e (CSetProviderID (ID msg) (provider_id e (ID msg)))
                         \<and> ID msg \<in> set (map ID (messages (store w)))),
                      Called (CUpdateMessageStatus (ID msg) StatusSent)
                        (\<not> fails e (CUpdateMessageStatus (ID msg) StatusSent)
                         \<and> ID msg \<in> set (map ID (messages (store w)))),
                      if \<not> fails e (CUpdateMessageStatus (ID msg) StatusSent)
                         \<and> ID msg \<in> set (map ID (messages (store w)))
                      then Ack else Nack True]"
    using sm by (simp add: Consume_step_JSON [OF assms(1)])
  have b: "broker (Consume_step (SendMessage e) w) =
           (if \<not> fails e (CUpdateMessageStatus (ID msg) StatusSent)
               \<and> ID msg \<in> set (map ID (messages (store w)))
            then rest else JSON msg # rest)"
    using sm by (simp add: Consume_step_JSON [OF assms(1)])
  have s: "messages (store (Consume_step (SendMessage e) w)) =
           map (\<lambda>m. if ID m = ID msg then row_after_send e m else m) (messages (store w))"
    using assms(2)
    by (simp add: store_Consume_step [OF assms(1)] SendMessage_store repo_UpdateMessageStatus_store
        repo_SetProviderID_store row_after_send_def Let_def o_def cong: if_cong)
  from t b s show ?thesis by blast
qed

theorem gateway_success_ack_witness:
  "broker queued_world = JSON (demo_rows ! 0) # [JSON (demo_rows ! 1)]
   \<and> \<not> fails env_ok (CSend (ID (demo_rows ! 0)))
   \<and> trace (Consume_step (SendMessage env_ok) queued_world) =
       [Called (CSend 2) True,
        Called (CSetProviderID 2 ''00000000-0000-0000-0000-0000000000bb'') True,
        Called (CUpdateMessageStatus 2 ''sent'') True, Ack]
   \<and> broker (Consume_step (SendMessage env_ok) queued_world) = [JSON (demo_rows ! 1)]
   \<and> map Status (messages (store (Consume_step (SendMessage env_ok) queued_world)))
       = [''sent'', ''queued'']
   \<and> map ProviderID (messages (store (Consume_step (SendMessage env_ok) queued_world)))
       = [''00000000-0000-0000-0000-0000000000bb'', []]
   \<and> trace (Consume_step (SendMessage env_status_fails) queued_world) =
       [Called (CSend 2) True,
        Called (CSetProviderID 2 ''00000000-0000-0000-0000-0000000000bb'') True,
        Called (CUpdateMessageStatus 2 ''sent'') False, Nack True]
   \<and> broker (Consume_step (SendMessage env_status_fails) queued_world) = broker queued_world"
proof -
  have b: "broker queued_world = JSON (demo_rows ! 0) # [JSON (demo_rows ! 1)]"
    by (simp add: run_defs)
  have f: "\<not> fails env_ok (CSend (ID (demo_rows ! 0)))"
    by (simp add: run_defs)
  have f': "\<not> fails env_status_fails (CSend (ID (demo_rows ! 0)))"
    by (simp add: run_defs)
  from gateway_success_ack [OF b f] gateway_success_ack [OF b f'] b f show ?thesis
    by (simp add: run_defs row_after_send_def)
qed

text \<open>
  \<open>SetProviderID\<close> fails after the gateway accepted message 2, the update to sent
  succeeds: the delivery is acknowledged and the row is sent with an empty provider id.
\<close>

theorem provider_id_failure_acked_counterexample:
  "trace (Consume_step (SendMessage env_setid_fails) queued_world) =
       [Called (CSend 2) True,
        Called (CSetProviderID 2 ''00000000-0000-0000-0000-0000000000bb'') False,
        Called (CUpdateMessageStatus 2 ''sent'') True, Ack]
   \<and> broker (Consume_step (SendMessage env_setid_fails) queued_world) = [JSON (demo_rows ! 1)]
   \<and> map Status (messages (store (Consume_step (SendMessage env_setid_fails) queued_world)))
       = [''sent'', ''queued'']
   \<and> map ProviderID (messages (store (Consume_step (SendMessage env_setid_fails) queued_world)))
       = [[], []]"
  by (simp add: exec_defs run_defs)

section \<open>C5: rows in a terminal status\<close>

lemma selected_not_terminal:
  assumes "distinct (map ID rows)" and "i < length rows"
    and "Status (rows ! i) \<noteq> StatusPending"
    and "set sel \<subseteq> {m \<in> set rows. Status m = StatusPending}"
  shows "ID (rows ! i) \<notin> set (map ID sel)"
proof
  assume "ID (rows ! i) \<in> set (map ID sel)"
  then obtain m where m: "m \<in> set sel" "ID m = ID (rows ! i)" by auto
  with assms(4) have mr: "m \<in> set rows" and mp: "Status m = StatusPending" by auto
  from assms(1) have "inj_on ID (set rows)" by (simp add: distinct_map)
  with mr m(2) assms(2) have "m = rows ! i"
    by (auto dest: inj_onD)
  with mp assms(3) show False by simp
qed

text \<open>
  C5, as far as the code keeps it. A row whose status is delivered or failed is left
  exactly as it is by a publisher poll cycle, by a worker send of any other message
  and by a DLR that carries any other provider id. (A worker send of the row's own
  message and a DLR with its own provider id write the status without reading it.)
\<close>

theorem terminal_row_frame:
  assumes "distinct (map ID (messages (store w)))" and "i < length (messages (store w))"
    and "Status (messages (store w) ! i) = StatusDelivered
         \<or> Status (messages (store w) ! i) = StatusFailed"
  shows "messages (store (snd (PublishPendingMessages e batchSize w))) ! i = messages (store w) ! i
       \<and> (ID msg \<noteq> ID (messages (store w) ! i) \<longrightarrow>
            messages (store (snd (SendMessage e msg w))) ! i = messages (store w) ! i)
       \<and> (uuid_String (DLRPayload.ProviderID dlr) \<noteq> ProviderID (messages (store w) ! i) \<longrightarrow>
            messages (store (snd (HandleDLR e dlr w))) ! i = messages (store w) ! i)"
proof -
  let ?rows = "messages (store w)"
  have np: "Status (?rows ! i) \<noteq> StatusPending"
    using assms(3) by (auto simp: Status_defs)
  have pub: "messages (store (snd (PublishPendingMessages e batchSize w))) ! i = ?rows ! i"
  proof (cases "GetPendingMessages (fails e CGetPendingMessages) (tie_order e) (nonpositive_limit e)
        batchSize (store w)")
    case (Inl err)
    then show ?thesis
      by (simp add: PublishPendingMessages_def repo_GetPendingMessages_def)
  next
    case (Inr sel)
    have "ID (?rows ! i) \<notin> set (map ID sel)"
      by (rule selected_not_terminal [OF assms(1,2) np selected_rows [OF Inr]])
    then show ?thesis
      using assms(2)
      by (simp add: PublishPendingMessages_char [OF assms(1) Inr] nth_Updates)
  qed
  have send: "ID msg \<noteq> ID (?rows ! i) \<longrightarrow>
            messages (store (snd (SendMessage e msg w))) ! i = ?rows ! i"
    using assms(2)
    by (auto simp add: SendMessage_store repo_UpdateMessageStatus_store repo_SetProviderID_store)
  have dlr: "uuid_String (DLRPayload.ProviderID dlr) \<noteq> ProviderID (?rows ! i) \<longrightarrow>
            messages (store (snd (HandleDLR e dlr w))) ! i = ?rows ! i"
    using assms(2)
    by (auto simp add: HandleDLR_char Let_def)
  from pub send dlr show ?thesis by blast
qed

theorem terminal_row_frame_witness:
  "distinct (map ID (messages (store demo_world)))
   \<and> (2::nat) < length (messages (store demo_world))
   \<and> Status (messages (store demo_world) ! 2) = StatusDelivered
   \<and> messages (store (snd (PublishPendingMessages env_ok 100 demo_world))) ! 2 = demo_rows ! 2
   \<and> ID (demo_rows ! 0) \<noteq> ID (messages (store demo_world) ! 2)
   \<and> messages (store (snd (SendMessage env_ok (demo_rows ! 0) demo_world))) ! 2 = demo_rows ! 2
   \<and> uuid_String (DLRPayload.ProviderID dlr_other) \<noteq> ProviderID (messages (store demo_world) ! 2)
   \<and> messages (store (snd (HandleDLR env_ok dlr_other demo_world))) ! 2 = demo_rows ! 2"
proof -
  have d: "distinct (map ID (messages (store demo_world)))"
    by (simp add: demo_defs)
  have i: "(2::nat) < length (messages (store demo_world))"
    by (simp add: demo_defs)
  have t: "Status (messages (store demo_world) ! 2) = StatusDelivered
           \<or> Status (messages (store demo_world) ! 2) = StatusFailed"
    by (simp add: demo_defs Status_defs)
  have m: "ID (demo_rows ! 0) \<noteq> ID (messages (store demo_world) ! 2)"
    by (simp add: demo_defs)
  have p: "uuid_String (DLRPayload.ProviderID dlr_other) \<noteq> ProviderID (messages (store demo_world) ! 2)"
    by (simp add: demo_defs dlr_other_def uuid_eval)
  from terminal_row_frame [OF d i t, of env_ok 100 "demo_rows ! 0" dlr_other] d i m p
  show ?thesis
    by (simp add: demo_defs Status_defs)
qed

text \<open>
  The gateway rejects message 2, the row becomes failed and the delivery is requeued;
  on the next delivery the gateway accepts it and the row goes from failed to sent.
\<close>

theorem terminal_row_resent_counterexample:
  "map Status (messages (store (Consume_step (SendMessage env_gateway_down) queued_world)))
       = [''failed'', ''queued'']
   \<and> map Status (messages (store (Consume_step (SendMessage env_ok)
                                    (Consume_step (SendMessage env_gateway_down) queued_world))))
       = [''sent'', ''queued'']"
  by (simp add: exec_defs run_defs)

section \<open>C1: creating a broadcast\<close>

lemma CreateBroadcast_char:
  "CreateBroadcast e req w =
     (let b = NewBroadcast (uuid_New e CNewBroadcast) (time_Now e CNewBroadcast)
                (CreateBroadcastRequest.Name req);
          msgs = map (\<lambda>(i, to). NewMessage (uuid_New e (CNewMessage i))
                                   (time_Now e (CNewMessage i)) (Broadcast.ID b)
                                   to (CreateBroadcastRequest.Body req))
                   (enumerate 0 (Recipient req));
          s1 = (store w)\<lparr>broadcasts := broadcasts (store w) @ [b]\<rparr>
      in case SaveBroadcast (fails e CSaveBroadcast) b (store w) of
           Inl err \<Rightarrow> (Inl (Wrapped ''save broadcast'' err),
                       w\<lparr>trace := trace w @ [Called CSaveBroadcast False]\<rparr>)
         | Inr s \<Rightarrow>
             (case SaveMessages (fails e CSaveMessages) msgs s1 of
                Inl err \<Rightarrow> (Inl (Wrapped ''save messages'' err),
                            w\<lparr>store := s1,
                              trace := trace w @ [Called CSaveBroadcast True, Called CSaveMessages False]\<rparr>)
              | Inr s2 \<Rightarrow> (Inr b,
                            w\<lparr>store := s2,
                              trace := trace w @ [Called CSaveBroadcast True, Called CSaveMessages True]\<rparr>)))"
  by (simp add: CreateBroadcast_def repo_SaveBroadcast_def repo_SaveMessages_def db_exec_def
      SaveBroadcast_def Let_def split: sum.splits)

lemma To_new_messages:
  "map To (map (\<lambda>(i, to). NewMessage (f i) (g i) b to body) (enumerate n rs)) = rs"
  by (induction rs arbitrary: n) (simp_all add: NewMessage_def)

text \<open>
  C1, as the service is written. \<open>CreateBroadcast\<close> commits twice: first the
  broadcast row, then all message rows in one transaction. When it returns the
  broadcast, the store has gained exactly that broadcast and, after the rows it had,
  one pending message per recipient, in the order of the recipients, each owned by the
  broadcast and carrying the body of the request. When it returns an error, no
  message row has been added; the broadcast row has not been added either when the
  error comes from saving the broadcast, and it has been added and stays, without any
  message, when the error comes from saving the messages.
\<close>

theorem CreateBroadcast_two_commits:
  "(case fst (CreateBroadcast e req w) of
      Inr b \<Rightarrow>
        broadcasts (store (snd (CreateBroadcast e req w))) = broadcasts (store w) @ [b]
        \<and> (\<exists>new. messages (store (snd (CreateBroadcast e req w))) = messages (store w) @ new
                  \<and> map To new = Recipient req
                  \<and> (\<forall>m\<in>set new. Status m = StatusPending \<and> BroadcastID m = Broadcast.ID b
                                     \<and> Body m = CreateBroadcastRequest.Body req))
    | Inl err \<Rightarrow>
        messages (store (snd (CreateBroadcast e req w))) = messages (store w)
        \<and> broadcasts (store (snd (CreateBroadcast e req w))) =
            (if error_context err = ''save broadcast'' then broadcasts (store w)
             else broadcasts (store w) @
                    [NewBroadcast (uuid_New e CNewBroadcast) (time_Now e CNewBroadcast)
                       (CreateBroadcastRequest.Name req)]))"
proof -
  let ?b = "NewBroadcast (uuid_New e CNewBroadcast) (time_Now e CNewBroadcast)
                (CreateBroadcastRequest.Name req)"
  let ?msgs = "map (\<lambda>(i, to). NewMessage (uuid_New e (CNewMessage i))
                                   (time_Now e (CNewMessage i)) (Broadcast.ID ?b)
                                   to (CreateBroadcastRequest.Body req))
                   (enumerate 0 (Recipient req))"
  let ?s1 = "(store w)\<lparr>broadcasts := broadcasts (store w) @ [?b]\<rparr>"
  have to: "map To ?msgs = Recipient req"
    by (rule To_new_messages)
  have all: "\<forall>m\<in>set ?msgs. Status m = StatusPending \<and> BroadcastID m = Broadcast.ID ?b
                                     \<and> Body m = CreateBroadcastRequest.Body req"
    by (auto simp: NewMessage_def)
  show ?thesis
  proof (cases "SaveBroadcast (fails e CSaveBroadcast) ?b (store w)")
    case (Inl err)
    then show ?thesis
      by (simp add: CreateBroadcast_char Let_def)
  next
    case (Inr s)
    show ?thesis
    proof (cases "SaveMessages (fails e CSaveMessages) ?msgs ?s1")
      case (Inl err)
      with Inr show ?thesis
        by (simp add: CreateBroadcast_char Let_def)
    next
      case sm: (Inr s2)
      then have s2: "broadcasts s2 = broadcasts (store w) @ [?b]
                     \<and> messages s2 = messages (store w) @ ?msgs"
        by (auto simp: SaveMessages_def split: if_splits)
      have "\<exists>new. messages s2 = messages (store w) @ new \<and> map To new = Recipient req
                  \<and> (\<forall>m\<in>set new. Status m = StatusPending \<and> BroadcastID m = Broadcast.ID ?b
                                     \<and> Body m = CreateBroadcastRequest.Body req)"
        using s2 to all by blast
      with Inr sm s2 show ?thesis
        by (simp add: CreateBroadcast_char Let_def)
    qed
  qed
qed

theorem CreateBroadcast_two_commits_witness:
  "fst (CreateBroadcast env_ok req_two empty_world)
     = Inr \<lparr>Broadcast.ID = 1, Broadcast.Name = ''n'', Broadcast.CreatedAt = 9\<rparr>
   \<and> broadcasts (store (snd (CreateBroadcast env_ok req_two empty_world)))
     = [\<lparr>Broadcast.ID = 1, Broadcast.Name = ''n'', Broadcast.CreatedAt = 9\<rparr>]
   \<and> (\<exists>new. messages (store (snd (CreateBroadcast env_ok req_two empty_world))) = new
            \<and> map To new = [''+1'', ''+2'']
            \<and> list_all (\<lambda>m. Status m = ''pending'' \<and> BroadcastID m = 1 \<and> Body m = ''hi'') new)"
proof -
  have r: "fst (CreateBroadcast env_ok req_two empty_world)
     = Inr \<lparr>Broadcast.ID = 1, Broadcast.Name = ''n'', Broadcast.CreatedAt = 9\<rparr>"
    by (simp add: CreateBroadcast_def exec_defs demo_defs req_two_def NewBroadcast_def
        NewMessage_def enumerate_eq_zip)
  from CreateBroadcast_two_commits [of env_ok req_two empty_world] r
  show ?thesis
    by (simp add: empty_world_def req_two_def Status_defs list_all_iff)
qed

text \<open>
  The store refuses the insert of the messages: \<open>CreateBroadcast\<close> returns an error
  and the broadcast row is stored with no message row.
\<close>

theorem CreateBroadcast_stranded_counterexample:
  "fst (CreateBroadcast env_messages_fail req_two empty_world)
     = Inl (Wrapped ''save messages'' (Wrapped ''create messages'' DriverError))
   \<and> broadcasts (store (snd (CreateBroadcast env_messages_fail req_two empty_world)))
     = [\<lparr>Broadcast.ID = 1, Broadcast.Name = ''n'', Broadcast.CreatedAt = 9\<rparr>]
   \<and> messages (store (snd (CreateBroadcast env_messages_fail req_two empty_world))) = []"
  by (simp add: CreateBroadcast_def exec_defs demo_defs req_two_def NewBroadcast_def
      NewMessage_def enumerate_eq_zip env_messages_fail_def)

section \<open>C6: the status values the DLR webhook accepts\<close>

text \<open>
  C6 says that a DLR whose status is neither delivered nor failed is rejected and
  updates no row. The handler rejects an undecodable body, an empty provider id, an
  empty status and a provider id that is not a UUID; every other status string is
  converted by \<open>statusFromString\<close> and written. Here the row with provider id
  \<open>...aa\<close> is delivered, and the request \<open>{"provider_id": "...aa", "status":
  "pending"}\<close> is answered with 204 and sets that row to pending.
\<close>

theorem HandleDLR_http_accepts_pending:
  "Status (messages (store demo_world) ! 2) = StatusDelivered
   \<and> ProviderID (messages (store demo_world) ! 2) = dlrRequest.ProviderID dlr_request_pending
   \<and> fst (HandleDLR_http uuid_Parse_canonical env_ok (Some dlr_request_pending) demo_world) = 204
   \<and> map Status (messages (store (snd (HandleDLR_http uuid_Parse_canonical env_ok
                                         (Some dlr_request_pending) demo_world))))
       = [''pending'', ''pending'', ''pending'', ''sent'']"
  by (simp add: HandleDLR_http_def statusFromString_def uuid_Parse_canonical_def hexval_def
      uuid_eval exec_defs demo_defs Status_defs dlr_request_pending_def)

end
